theory Spec2Isabelle
  imports Complex_Main
begin

section \<open>Room booking: conflict detection, recurrence expansion, timeline layout\<close>

text \<open>
  A shallow embedding of the domain logic of \<^verbatim>\<open>src/App.jsx\<close>:
  the availability query (\<^verbatim>\<open>ConsultaDisponibilidadView.handleBuscar\<close>), the card
  status (\<^verbatim>\<open>SalonesView.getSalonStatus\<close>), the timeline placement
  (\<^verbatim>\<open>CalendarioView.calculateReservaPosition\<close>) and the booking form
  (\<^verbatim>\<open>ReservaForm.handleSubmit\<close>, \<^verbatim>\<open>crearReservaSimple\<close>,
  \<^verbatim>\<open>crearReservasRecurrentes\<close>).

  Conventions of the model.
  \<^item> A valid JavaScript \<^verbatim>\<open>Date\<close> is its time value: an \<open>int\<close> of milliseconds since the
    epoch. Comparing two dates with \<^verbatim>\<open><\<close>, \<^verbatim>\<open><=\<close>, \<^verbatim>\<open>>\<close>, \<^verbatim>\<open>>=\<close> compares the
    time values. Where the source can build an invalid date from an optional form field,
    the model uses \<open>int option\<close> and \<open>None\<close> is the invalid date (time value NaN).
    Time values stay inside the range of \<^verbatim>\<open>Date\<close> (8.64e15 ms either side of the
    epoch, the year 275760), where \<open>TimeClip\<close> changes nothing and
    \<^verbatim>\<open>toISOString\<close> does not throw; a request whose occurrences leave that range is
    outside the model.
  \<^item> The host's time zone is a parameter: its offset at an instant and its offset at a
    local time, as ECMAScript reads them. Reading the local fields of a date and setting
    the local day of the month go through it.
  \<^item> A JavaScript number is a binary64 value, held as the rational it denotes; an
    arithmetic operation is the exact operation followed by rounding to the nearest
    binary64 value, ties to even.
  \<^item> The hosted backend is a parameter: a pair of response functions, one for the
    \<^verbatim>\<open>select\<close> probes and one for \<^verbatim>\<open>insert\<close>. Every call the code issues is
    appended to a trace.
\<close>

subsection \<open>Data model\<close>

type_synonym ident = nat

text \<open>A room row. Only \<^verbatim>\<open>id\<close> and \<^verbatim>\<open>capacidad\<close> are read by the logic below.\<close>

record salon =
  id_sal :: ident
  nombre :: string
  capacidad :: int

text \<open>
  The payload of an insert (\<^verbatim>\<open>salon_id, user_id, fecha_inicio, fecha_fin, proposito\<close>),
  and a stored reservation row, which carries its identifier as well.
\<close>

record nueva_reserva =
  salon_id :: ident
  user_id :: ident
  fecha_inicio :: int
  fecha_fin :: int
  proposito :: string

record reserva = nueva_reserva +
  id_res :: ident

subsection \<open>Availability query\<close>

text \<open>
  \<^verbatim>\<open>capacidadMinima\<close> is a text field: empty (falsy, no filter), or a text that
  \<^verbatim>\<open>parseInt\<close> turns into NaN (every comparison with it is false), or a number.
\<close>

datatype capacidad_minima = Sin_minimo | Minimo_NaN | Minimo int

fun filtrar_capacidad :: "capacidad_minima \<Rightarrow> salon list \<Rightarrow> salon list" where
  "filtrar_capacidad Sin_minimo salones = salones"
| "filtrar_capacidad Minimo_NaN salones = filter (\<lambda>s. False) salones"
| "filtrar_capacidad (Minimo m) salones = filter (\<lambda>s. capacidad s \<ge> m) salones"

record resultado =
  salon :: salon
  disponible :: bool
  conflicto :: "reserva option"

text \<open>
  The callback of \<^verbatim>\<open>reservas.find\<close> (lines 1370-1378): the room reference must match,
  then \<^verbatim>\<open>inicio < reservaFin && fin > reservaInicio\<close>.
\<close>

definition solapa :: "salon \<Rightarrow> int \<Rightarrow> int \<Rightarrow> reserva \<Rightarrow> bool" where
  "solapa s inicio fin r =
     (if salon_id r \<noteq> id_sal s then False
      else (let reservaInicio = fecha_inicio r; reservaFin = fecha_fin r
            in inicio < reservaFin \<and> fin > reservaInicio))"

text \<open>
  Lines 1358-1385 of \<^verbatim>\<open>handleBuscar\<close>, from the parsed window on:
  \<^verbatim>\<open>find\<close> returns the first matching element or \<^verbatim>\<open>undefined\<close>, and
  \<^verbatim>\<open>conflicto || null\<close> is \<open>None\<close> then. The two guards before it
  (lines 1346-1354) work on the text of the form fields: they return without an answer
  when a field is empty or when \<^verbatim>\<open>horaFin <= horaInicio\<close>, so the code below runs
  only on windows of one day with \<open>inicio < fin\<close>; the function here is defined on every
  window.
\<close>

definition handleBuscar ::
  "salon list \<Rightarrow> reserva list \<Rightarrow> capacidad_minima \<Rightarrow> int \<Rightarrow> int \<Rightarrow> resultado list" where
  "handleBuscar salones reservas capacidadMinima inicio fin =
     (let salonesDisponibles = filtrar_capacidad capacidadMinima salones
      in map (\<lambda>s. let conflicto = List.find (solapa s inicio fin) reservas
                  in \<lparr>salon = s,
                      disponible = (conflicto = None),
                      conflicto = conflicto\<rparr>)
             salonesDisponibles)"

text \<open>The half-open overlap test in the words of the specification.\<close>

definition overlap :: "int \<Rightarrow> int \<Rightarrow> int \<Rightarrow> int \<Rightarrow> bool" where
  "overlap a b c d = (a < d \<and> b > c)"

subsection \<open>Card status\<close>

text \<open>
  \<^verbatim>\<open>getSalonStatus\<close> (lines 1594-1602); the current instant \<^verbatim>\<open>new Date()\<close> is the
  argument \<open>now\<close>.
\<close>

definition getSalonStatus :: "reserva list \<Rightarrow> int \<Rightarrow> ident \<Rightarrow> string" where
  "getSalonStatus reservas now salonId =
     (let reservasActivas =
            filter (\<lambda>r. salon_id r = salonId \<and> fecha_inicio r \<le> now \<and> fecha_fin r \<ge> now)
                   reservas
      in if length reservasActivas > 0 then ''ocupado'' else ''disponible'')"

subsection \<open>Local time\<close>

text \<open>
  The time zone of the host. \<open>ltza_utc z t\<close> is the offset (ms) of local time from UTC
  at the instant \<open>t\<close>, ECMAScript's \<open>LocalTZA(t, true)\<close>; \<open>ltza_local z l\<close> is the
  offset with which the local time \<open>l\<close> is read, \<open>LocalTZA(l, false)\<close>.
\<close>

record zona =
  ltza_utc :: "int \<Rightarrow> int"
  ltza_local :: "int \<Rightarrow> int"

definition LocalTime :: "zona \<Rightarrow> int \<Rightarrow> int" where
  "LocalTime z t = t + ltza_utc z t"

definition UTC_de_local :: "zona \<Rightarrow> int \<Rightarrow> int" where
  "UTC_de_local z l = l - ltza_local z l"

text \<open>A zone whose offset never changes.\<close>

definition zona_fija :: "int \<Rightarrow> zona" where
  "zona_fija tza = \<lparr>ltza_utc = (\<lambda>t. tza), ltza_local = (\<lambda>l. tza)\<rparr>"

text \<open>
  A zone with one change of offset, from \<open>antes\<close> to \<open>despues\<close> at the instant
  \<open>cambio\<close>. A local time that the change skips or repeats is read with the offset
  before the change, as ECMAScript prescribes.
\<close>

definition zona_un_cambio :: "int \<Rightarrow> int \<Rightarrow> int \<Rightarrow> zona" where
  "zona_un_cambio cambio antes despues =
     \<lparr>ltza_utc = (\<lambda>t. if t < cambio then antes else despues),
      ltza_local = (\<lambda>l. if l < cambio + max antes despues then antes else despues)\<rparr>"



text \<open>
  \<^verbatim>\<open>d.setDate(d.getDate() + n)\<close> on the time value \<open>t\<close>. ECMAScript takes the local
  time of \<open>t\<close>, replaces its day by \<open>MakeDay(year, month, date + n)\<close>, which is the day
  of \<open>t\<close> plus \<open>n\<close>, keeps the time within the day, and reads the resulting local time
  back as an instant. Over a change of the zone's offset the instant does not move by
  \<open>n\<close> times 86400000 ms.
\<close>

definition setDate_mas :: "zona \<Rightarrow> int \<Rightarrow> int \<Rightarrow> int" where
  "setDate_mas z t n = UTC_de_local z (LocalTime z t + n * 86400000)"

subsection \<open>Binary64 arithmetic\<close>

text \<open>The position of the leading bit: \<open>2 ^ log2p n \<le> n < 2 ^ (log2p n + 1)\<close> for \<open>n > 0\<close>.\<close>

fun log2p :: "nat \<Rightarrow> nat" where
  "log2p n = (if n < 2 then 0 else Suc (log2p (n div 2)))"

declare log2p.simps [simp del]

text \<open>The binary exponent of a positive rational \<open>a\<close>: \<open>2 powi e \<le> a < 2 powi (e + 1)\<close>.\<close>

definition exponente :: "rat \<Rightarrow> int" where
  "exponente a =
     (if 1 \<le> a then int (log2p (nat \<lfloor>a\<rfloor>))
      else - int (Suc (log2p (nat (\<lceil>1 / a\<rceil> - 1)))))"

text \<open>
  Rounding to the nearest binary64 value, ties to even: 53 significant bits. The values
  of the timeline computation lie far inside the range of normal binary64 numbers, so
  overflow and subnormal numbers are left out.
\<close>

definition redondeo64 :: "rat \<Rightarrow> rat" where
  "redondeo64 x =
     (if x = 0 then 0
      else let a = \<bar>x\<bar>;
               e = exponente a - 52;
               m = a / 2 powi e;
               f = \<lfloor>m\<rfloor>;
               d = m - of_int f;
               n = (if d < 1 / 2 then f
                    else if 1 / 2 < d then f + 1
                    else if even f then f else f + 1)
           in sgn x * of_int n * 2 powi e)"





subsection \<open>Timeline layout\<close>




subsection \<open>The backend as the form sees it\<close>

text \<open>
  The filters the query builder sends: \<^verbatim>\<open>.eq(column, v)\<close>, and inside the text given to
  \<^verbatim>\<open>.or(...)\<close> the PostgREST operators \<^verbatim>\<open>column.lte.v\<close>, \<^verbatim>\<open>column.gte.v\<close> and the
  group \<^verbatim>\<open>and(...)\<close>. A row passes \<^verbatim>\<open>lte\<close> when its column is less than or equal to
  the value, \<^verbatim>\<open>gte\<close> when it is greater than or equal; the filters chained on one query
  must all hold.
\<close>

datatype columna = Col_salon_id | Col_fecha_inicio | Col_fecha_fin

datatype pg_filter =
    Eq columna int
  | Lte columna int
  | Gte columna int
  | And_f "pg_filter list"
  | Or_f "pg_filter list"

fun col_val :: "reserva \<Rightarrow> columna \<Rightarrow> int" where
  "col_val r Col_salon_id = int (salon_id r)"
| "col_val r Col_fecha_inicio = fecha_inicio r"
| "col_val r Col_fecha_fin = fecha_fin r"

fun pg_matches :: "reserva \<Rightarrow> pg_filter \<Rightarrow> bool" where
  "pg_matches r (Eq c v) = (col_val r c = v)"
| "pg_matches r (Lte c v) = (col_val r c \<le> v)"
| "pg_matches r (Gte c v) = (col_val r c \<ge> v)"
| "pg_matches r (And_f fs) = list_all (pg_matches r) fs"
| "pg_matches r (Or_f fs) = list_ex (pg_matches r) fs"

text \<open>
  What the backend answers. \<open>select_reservas\<close> gives the \<^verbatim>\<open>data\<close> of a probe:
  \<open>None\<close> when the call fails (\<^verbatim>\<open>data\<close> is \<^verbatim>\<open>null\<close> and \<^verbatim>\<open>error\<close> is set).
  \<open>insert_reservas\<close> gives the \<^verbatim>\<open>error\<close> of an insert, \<open>None\<close> when it succeeds.
\<close>

record backend =
  select_reservas :: "pg_filter list \<Rightarrow> reserva list option"
  insert_reservas :: "nueva_reserva list \<Rightarrow> string option"

text \<open>A backend that works and holds the committed rows \<open>filas\<close>.\<close>

definition supabase_tabla :: "reserva list \<Rightarrow> backend" where
  "supabase_tabla filas =
     \<lparr>select_reservas = (\<lambda>fs. Some (filter (\<lambda>r. list_all (pg_matches r) fs) filas)),
      insert_reservas = (\<lambda>nuevas. None)\<rparr>"

datatype llamada = Select "pg_filter list" | Insert "nueva_reserva list"

subsection \<open>Booking form\<close>

record usuario =
  id_usr :: ident

text \<open>
  The state of \<^verbatim>\<open>ReservaForm\<close> that the submission reads. \<open>numSemanas\<close> holds
  \<^verbatim>\<open>parseInt(numSemanas)\<close> and \<open>fechaFinRecurrencia\<close> holds the time value of
  \<^verbatim>\<open>new Date(fechaFinRecurrencia)\<close>; \<open>None\<close> is NaN, which the optional date field
  gives when it is left empty.
\<close>

record reserva_form =
  proposito_form :: string
  esRecurrente :: bool
  tipoRecurrencia :: string
  numSemanas :: "int option"
  fechaFinRecurrencia :: "int option"

text \<open>
  An entry of \<^verbatim>\<open>conflictos\<close>: the 1-indexed week and the start of the occurrence (the
  source keeps that date as a localized text).
\<close>

record conflicto_semana =
  semana :: nat
  fecha :: int

text \<open>
  What the submission can throw: the validation \<^verbatim>\<open>Error\<close> with its message, the
  \<^verbatim>\<open>Error\<close> whose message lists the conflicting weeks, and the backend's
  \<^verbatim>\<open>insertError\<close>. \<^verbatim>\<open>handleSubmit\<close> catches each of them and shows the message.
\<close>

datatype js_error =
    Error string
  | Error_conflictos "conflicto_semana list"
  | Insert_error string

datatype exito = Reserva_creada | Reservas_creadas nat

record efecto =
  salida :: "js_error + exito"
  llamadas :: "llamada list"

text \<open>\<^verbatim>\<open>crearReservaSimple\<close> (lines 2036-2051).\<close>

definition crearReservaSimple ::
  "backend \<Rightarrow> salon \<Rightarrow> usuario \<Rightarrow> reserva_form \<Rightarrow> int \<Rightarrow> int \<Rightarrow> efecto" where
  "crearReservaSimple be sal usr form inicio fin =
     (let filas = [\<lparr>salon_id = id_sal sal, user_id = id_usr usr, fecha_inicio = inicio,
                    fecha_fin = fin, proposito = proposito_form form\<rparr>]
      in case insert_reservas be filas of
           Some insertError \<Rightarrow> \<lparr>salida = Inl (Insert_error insertError), llamadas = [Insert filas]\<rparr>
         | None \<Rightarrow> \<lparr>salida = Inr Reserva_creada, llamadas = [Insert filas]\<rparr>)"

text \<open>The decimal text of \<^verbatim>\<open>${i + 1}\<close>.\<close>

fun texto_nat :: "nat \<Rightarrow> string" where
  "texto_nat n =
     (if n < 10 then [char_of (48 + n)]
      else texto_nat (n div 10) @ [char_of (48 + n mod 10)])"

declare texto_nat.simps [simp del]

text \<open>
  The probe of lines 2086-2090:
  \<^verbatim>\<open>.eq('salon_id', salon.id).or(`and(fecha_inicio.lte.${fin},fecha_fin.gte.${inicio})`)\<close>.
\<close>

definition consulta_conflicto :: "salon \<Rightarrow> int \<Rightarrow> int \<Rightarrow> pg_filter list" where
  "consulta_conflicto sal inicio fin =
     [Eq Col_salon_id (int (id_sal sal)),
      Or_f [And_f [Lte Col_fecha_inicio fin, Gte Col_fecha_fin inicio]]]"

text \<open>
  \<^verbatim>\<open>fechaLimite && inicio > fechaLimite\<close>: \<open>None\<close> is \<^verbatim>\<open>undefined\<close> (recurrence by
  weeks), \<open>Some None\<close> an invalid date (truthy, and the comparison with NaN is false).
\<close>

fun pasa_limite :: "int option option \<Rightarrow> int \<Rightarrow> bool" where
  "pasa_limite None inicio = False"
| "pasa_limite (Some None) inicio = False"
| "pasa_limite (Some (Some limite)) inicio = (inicio > limite)"

text \<open>\<^verbatim>\<open>existentes && existentes.length > 0\<close>.\<close>

fun hay_existentes :: "reserva list option \<Rightarrow> bool" where
  "hay_existentes None = False"
| "hay_existentes (Some existentes) = (length existentes > 0)"

record acumulado =
  reservas_nuevas :: "nueva_reserva list"
  conflictos :: "conflicto_semana list"
  consultas :: "llamada list"

text \<open>
  The body of the \<^verbatim>\<open>for\<close> loop (lines 2073-2106) over the indices still to visit;
  \<^verbatim>\<open>break\<close> returns what has been gathered so far.
\<close>

fun bucle ::
  "zona \<Rightarrow> backend \<Rightarrow> salon \<Rightarrow> usuario \<Rightarrow> reserva_form \<Rightarrow> int \<Rightarrow> int \<Rightarrow> int option option
     \<Rightarrow> nat list \<Rightarrow> acumulado \<Rightarrow> acumulado" where
  "bucle z be sal usr form inicioBase finBase fechaLimite [] acc = acc"
| "bucle z be sal usr form inicioBase finBase fechaLimite (i # resto) acc =
     (let inicio = setDate_mas z inicioBase (int i * 7);
          fin = setDate_mas z finBase (int i * 7)
      in if pasa_limite fechaLimite inicio then acc
         else
           let consulta = consulta_conflicto sal inicio fin;
               existentes = select_reservas be consulta;
               acc1 = acc\<lparr>consultas := consultas acc @ [Select consulta]\<rparr>
           in bucle z be sal usr form inicioBase finBase fechaLimite resto
                (if hay_existentes existentes
                 then acc1\<lparr>conflictos := conflictos acc1 @
                              [\<lparr>semana = i + 1, fecha = inicio\<rparr>]\<rparr>
                 else acc1\<lparr>reservas_nuevas := reservas_nuevas acc1 @
                              [\<lparr>salon_id = id_sal sal, user_id = id_usr usr,
                                fecha_inicio = inicio, fecha_fin = fin,
                                proposito = proposito_form form @ '' (Semana '' @
                                            texto_nat (i + 1) @ '')''\<rparr>]\<rparr>))"

text \<open>
  Lines 2058-2067. \<^verbatim>\<open>Math.ceil(diffTime / 86400000)\<close> of a non-negative whole number of
  milliseconds is the ceiling of the exact quotient for any two dates less than some
  thousand centuries apart, where the floating-point quotient of a non-multiple cannot
  round to a whole number.
\<close>

definition calcular_numReservas :: "reserva_form \<Rightarrow> int \<Rightarrow> int option" where
  "calcular_numReservas form inicioBase =
     (if tipoRecurrencia form = ''weeks'' then numSemanas form
      else case fechaFinRecurrencia form of
             None \<Rightarrow> None
           | Some limiteDate \<Rightarrow>
               (let diffTime = \<bar>limiteDate - inicioBase\<bar>;
                    diffDays = - ((- diffTime) div 86400000)
                in Some (diffDays div 7 + 1)))"

definition calcular_fechaLimite :: "reserva_form \<Rightarrow> int option option" where
  "calcular_fechaLimite form =
     (if tipoRecurrencia form = ''weeks'' then None else Some (fechaFinRecurrencia form))"

text \<open>The values of \<open>i\<close> with \<^verbatim>\<open>0 <= i < numReservas\<close>; none when \<open>numReservas\<close> is NaN.\<close>

fun indices :: "int option \<Rightarrow> nat list" where
  "indices None = []"
| "indices (Some numReservas) = [0 ..< nat numReservas]"

text \<open>\<^verbatim>\<open>crearReservasRecurrentes\<close> (lines 2053-2125).\<close>

definition crearReservasRecurrentes ::
  "zona \<Rightarrow> backend \<Rightarrow> salon \<Rightarrow> usuario \<Rightarrow> reserva_form \<Rightarrow> int \<Rightarrow> int \<Rightarrow> efecto" where
  "crearReservasRecurrentes z be sal usr form inicioBase finBase =
     (let numReservas = calcular_numReservas form inicioBase;
          fechaLimite = calcular_fechaLimite form;
          acc = bucle z be sal usr form inicioBase finBase fechaLimite (indices numReservas)
                  \<lparr>reservas_nuevas = [], conflictos = [], consultas = []\<rparr>
      in if length (conflictos acc) > 0
         then \<lparr>salida = Inl (Error_conflictos (conflictos acc)), llamadas = consultas acc\<rparr>
         else case insert_reservas be (reservas_nuevas acc) of
                Some insertError \<Rightarrow>
                  \<lparr>salida = Inl (Insert_error insertError),
                   llamadas = consultas acc @ [Insert (reservas_nuevas acc)]\<rparr>
              | None \<Rightarrow>
                  \<lparr>salida = Inr (Reservas_creadas (length (reservas_nuevas acc))),
                   llamadas = consultas acc @ [Insert (reservas_nuevas acc)]\<rparr>)"

text \<open>
  \<^verbatim>\<open>handleSubmit\<close> (lines 2010-2034). \<open>inicio\<close> and \<open>fin\<close> are the dates parsed from the
  two required \<^verbatim>\<open>datetime-local\<close> fields, both valid. \<open>Inl\<close> is the \<^verbatim>\<open>catch\<close>
  branch, which shows the message of the error inline (\<^verbatim>\<open>setError(err.message)\<close>).
\<close>

definition handleSubmit ::
  "zona \<Rightarrow> backend \<Rightarrow> salon \<Rightarrow> usuario \<Rightarrow> reserva_form \<Rightarrow> int \<Rightarrow> int \<Rightarrow> efecto" where
  "handleSubmit z be sal usr form inicio fin =
     (if fin \<le> inicio
      then \<lparr>salida = Inl (Error ''La fecha de fin debe ser posterior a la fecha de inicio''),
            llamadas = []\<rparr>
      else if esRecurrente form
           then crearReservasRecurrentes z be sal usr form inicio fin
           else crearReservaSimple be sal usr form inicio fin)"

text \<open>The rows that a run sent to the backend for insertion.\<close>

fun filas_de :: "llamada \<Rightarrow> nueva_reserva list" where
  "filas_de (Select consulta) = []"
| "filas_de (Insert filas) = filas"

definition filas_insertadas :: "efecto \<Rightarrow> nueva_reserva list" where
  "filas_insertadas e = concat (map filas_de (llamadas e))"

subsection \<open>The recurrence, occurrence by occurrence\<close>

text \<open>
  Occurrence \<open>k\<close> (0-indexed) of a base instant: the instant that the zone gives to the
  local date and time of the base moved \<open>7k\<close> calendar days.
\<close>

definition inicio_k :: "zona \<Rightarrow> int \<Rightarrow> nat \<Rightarrow> int" where
  "inicio_k z inicioBase k = UTC_de_local z (LocalTime z inicioBase + 7 * int k * 86400000)"

text \<open>
  Index \<open>k\<close> is generated when \<open>k\<close> is below the count and no index up to \<open>k\<close> starts
  after the stop date.
\<close>

definition ocurrencias :: "zona \<Rightarrow> reserva_form \<Rightarrow> int \<Rightarrow> nat list" where
  "ocurrencias z form inicioBase =
     takeWhile (\<lambda>k. \<not> pasa_limite (calcular_fechaLimite form) (inicio_k z inicioBase k))
               (indices (calcular_numReservas form inicioBase))"

text \<open>The probe of occurrence \<open>k\<close>, and whether it finds at least one existing row.\<close>

definition sonda_k :: "zona \<Rightarrow> salon \<Rightarrow> int \<Rightarrow> int \<Rightarrow> nat \<Rightarrow> pg_filter list" where
  "sonda_k z sal inicioBase finBase k =
     consulta_conflicto sal (inicio_k z inicioBase k) (inicio_k z finBase k)"

definition en_conflicto :: "zona \<Rightarrow> backend \<Rightarrow> salon \<Rightarrow> int \<Rightarrow> int \<Rightarrow> nat \<Rightarrow> bool" where
  "en_conflicto z be sal inicioBase finBase k =
     (case select_reservas be (sonda_k z sal inicioBase finBase k) of
        None \<Rightarrow> False
      | Some existentes \<Rightarrow> existentes \<noteq> [])"

text \<open>The row written for occurrence \<open>k\<close>.\<close>

definition fila_k ::
  "zona \<Rightarrow> salon \<Rightarrow> usuario \<Rightarrow> reserva_form \<Rightarrow> int \<Rightarrow> int \<Rightarrow> nat \<Rightarrow> nueva_reserva" where
  "fila_k z sal usr form inicioBase finBase k =
     \<lparr>salon_id = id_sal sal, user_id = id_usr usr,
      fecha_inicio = inicio_k z inicioBase k, fecha_fin = inicio_k z finBase k,
      proposito = proposito_form form @ '' (Semana '' @ texto_nat (k + 1) @ '')''\<rparr>"

section \<open>Properties\<close>

subsection \<open>Availability query\<close>

lemma find_solapa_None:
  "(List.find (solapa s a b) rs = None) =
     (\<forall>r \<in> set rs. \<not> (salon_id r = id_sal s \<and> overlap a b (fecha_inicio r) (fecha_fin r)))"
  by (auto simp: find_None_iff solapa_def overlap_def)

lemma find_solapa_Some:
  "List.find (solapa s a b) rs = Some r \<Longrightarrow>
     r \<in> set rs \<and> salon_id r = id_sal s \<and> overlap a b (fecha_inicio r) (fecha_fin r)"
  by (auto simp: find_Some_iff solapa_def overlap_def split: if_splits)

text \<open>
  What one entry of the answer says, for any snapshot: the room is available exactly when
  no reservation of that room overlaps the window under the half-open test, and a
  reported conflict is a reservation of that room that does overlap.
\<close>

lemma handleBuscar_entry:
  assumes "e \<in> set (handleBuscar salones reservas cap a b)"
  shows "disponible e =
           (\<forall>r \<in> set reservas. \<not> (salon_id r = id_sal (salon e) \<and>
                                   overlap a b (fecha_inicio r) (fecha_fin r)))"
    and "disponible e = (conflicto e = None)"
    and "conflicto e = Some r \<Longrightarrow>
           r \<in> set reservas \<and> salon_id r = id_sal (salon e) \<and>
           overlap a b (fecha_inicio r) (fecha_fin r)"
  using assms
  by (auto simp: handleBuscar_def Let_def find_solapa_None dest: find_solapa_Some)

text \<open>
  The whole answer: one entry for each room that passes the capacity filter, in the order
  of the room list, with the first overlapping reservation of that room, if any.
\<close>

lemma solapa_eq:
  "solapa s a b = (\<lambda>x. salon_id x = id_sal s \<and> a < fecha_fin x \<and> b > fecha_inicio x)"
  by (auto simp: solapa_def fun_eq_iff)

lemma handleBuscar_todo:
  "handleBuscar salones reservas cap a b =
     map (\<lambda>s. \<lparr>salon = s,
                disponible = (\<forall>x \<in> set reservas. salon_id x = id_sal s \<longrightarrow>
                                 \<not> (a < fecha_fin x \<and> b > fecha_inicio x)),
                conflicto = List.find (\<lambda>x. salon_id x = id_sal s \<and> a < fecha_fin x
                                           \<and> b > fecha_inicio x) reservas\<rparr>)
         (filtrar_capacidad cap salones)"
  by (auto simp: handleBuscar_def Let_def solapa_eq find_None_iff)

lemma handleBuscar_salones:
  "map salon (handleBuscar salones reservas cap a b) = filtrar_capacidad cap salones"
  by (simp add: handleBuscar_def Let_def comp_def)

text \<open>
  C1. For every query window \<open>[a,b)\<close> and every reservation \<open>r = [c,d)\<close>: against a
  snapshot holding just \<open>r\<close>, the query reports \<open>r\<close> as the conflict of room \<open>s\<close> if and
  only if \<open>r\<close> is on room \<open>s\<close> and \<open>a < d \<and> b > c\<close>, and reports the room available
  otherwise; with \<open>b = c\<close> (adjacent) \<open>r\<close> is not reported. For any room list and any
  snapshot, the answer has exactly one entry for each candidate room (all of them when no
  minimum capacity is given, those with enough capacity otherwise, none when the minimum
  is not a number); the entry is available exactly when no reservation of its room passes
  that test, and otherwise carries the first reservation of the snapshot that passes it,
  which is never an adjacent one.
\<close>

theorem availability_overlap_iff:
  "handleBuscar [s] [r] Sin_minimo a b =
     [\<lparr>salon = s,
       disponible = (\<not> (salon_id r = id_sal s \<and> a < fecha_fin r \<and> b > fecha_inicio r)),
       conflicto = (if salon_id r = id_sal s \<and> a < fecha_fin r \<and> b > fecha_inicio r
                    then Some r else None)\<rparr>]
   \<and> (b = fecha_inicio r \<longrightarrow>
        handleBuscar [s] [r] Sin_minimo a b = [\<lparr>salon = s, disponible = True, conflicto = None\<rparr>])
   \<and> (\<forall>e \<in> set (handleBuscar salones reservas cap a b).
        (disponible e \<longleftrightarrow>
           (\<forall>x \<in> set reservas. salon_id x = id_sal (salon e) \<longrightarrow>
                                \<not> (a < fecha_fin x \<and> b > fecha_inicio x)))
        \<and> (disponible e \<longleftrightarrow> conflicto e = None)
        \<and> (\<forall>x. conflicto e = Some x \<longrightarrow>
              x \<in> set reservas \<and> salon_id x = id_sal (salon e)
              \<and> a < fecha_fin x \<and> b > fecha_inicio x \<and> b \<noteq> fecha_inicio x))
   \<and> handleBuscar salones reservas cap a b =
        map (\<lambda>s. \<lparr>salon = s,
                   disponible = (\<forall>x \<in> set reservas. salon_id x = id_sal s \<longrightarrow>
                                    \<not> (a < fecha_fin x \<and> b > fecha_inicio x)),
                   conflicto = List.find (\<lambda>x. salon_id x = id_sal s \<and> a < fecha_fin x
                                              \<and> b > fecha_inicio x) reservas\<rparr>)
            (filtrar_capacidad cap salones)
   \<and> map salon (handleBuscar salones reservas Sin_minimo a b) = salones
   \<and> map salon (handleBuscar salones reservas (Minimo m) a b)
        = filter (\<lambda>s. m \<le> capacidad s) salones
   \<and> handleBuscar salones reservas Minimo_NaN a b = []"
proof (intro conjI ballI allI impI)
  show one: "handleBuscar [s] [r] Sin_minimo a b =
     [\<lparr>salon = s,
       disponible = (\<not> (salon_id r = id_sal s \<and> a < fecha_fin r \<and> b > fecha_inicio r)),
       conflicto = (if salon_id r = id_sal s \<and> a < fecha_fin r \<and> b > fecha_inicio r
                    then Some r else None)\<rparr>]"
    by (simp add: handleBuscar_def solapa_def Let_def)
  show "handleBuscar [s] [r] Sin_minimo a b = [\<lparr>salon = s, disponible = True, conflicto = None\<rparr>]"
    if "b = fecha_inicio r"
    using that one by simp
  show "handleBuscar salones reservas cap a b =
        map (\<lambda>s. \<lparr>salon = s,
                   disponible = (\<forall>x \<in> set reservas. salon_id x = id_sal s \<longrightarrow>
                                    \<not> (a < fecha_fin x \<and> b > fecha_inicio x)),
                   conflicto = List.find (\<lambda>x. salon_id x = id_sal s \<and> a < fecha_fin x
                                              \<and> b > fecha_inicio x) reservas\<rparr>)
            (filtrar_capacidad cap salones)"
    by (rule handleBuscar_todo)
  show "map salon (handleBuscar salones reservas Sin_minimo a b) = salones"
    by (simp add: handleBuscar_salones)
  show "map salon (handleBuscar salones reservas (Minimo m) a b)
        = filter (\<lambda>s. m \<le> capacidad s) salones"
    by (simp add: handleBuscar_salones)
  show "handleBuscar salones reservas Minimo_NaN a b = []"
    by (simp add: handleBuscar_def)
next
  fix e assume e: "e \<in> set (handleBuscar salones reservas cap a b)"
  show "disponible e \<longleftrightarrow>
           (\<forall>x \<in> set reservas. salon_id x = id_sal (salon e) \<longrightarrow>
                                \<not> (a < fecha_fin x \<and> b > fecha_inicio x))"
    using handleBuscar_entry(1)[OF e] by (auto simp: overlap_def)
  show "disponible e \<longleftrightarrow> conflicto e = None"
    by (rule handleBuscar_entry(2)[OF e])
  fix x assume x: "conflicto e = Some x"
  from handleBuscar_entry(3)[OF e x]
  show "x \<in> set reservas" "salon_id x = id_sal (salon e)"
       "a < fecha_fin x" "b > fecha_inicio x" "b \<noteq> fecha_inicio x"
    by (auto simp: overlap_def)
qed

theorem availability_overlap_iff_witness:
  "handleBuscar [\<lparr>id_sal = 1, nombre = ''A'', capacidad = 30\<rparr>]
       [\<lparr>salon_id = 1, user_id = 7, fecha_inicio = 200, fecha_fin = 300, proposito = ''x'',
         id_res = 5\<rparr>] Sin_minimo 100 200
     = [\<lparr>salon = \<lparr>id_sal = 1, nombre = ''A'', capacidad = 30\<rparr>, disponible = True,
         conflicto = None\<rparr>]
   \<and> handleBuscar [\<lparr>id_sal = 1, nombre = ''A'', capacidad = 30\<rparr>]
       [\<lparr>salon_id = 1, user_id = 7, fecha_inicio = 200, fecha_fin = 300, proposito = ''x'',
         id_res = 5\<rparr>] Sin_minimo 100 201
     = [\<lparr>salon = \<lparr>id_sal = 1, nombre = ''A'', capacidad = 30\<rparr>, disponible = False,
         conflicto = Some \<lparr>salon_id = 1, user_id = 7, fecha_inicio = 200, fecha_fin = 300,
                           proposito = ''x'', id_res = 5\<rparr>\<rparr>]
   \<and> \<lparr>salon = \<lparr>id_sal = 1, nombre = ''A'', capacidad = 30\<rparr>, disponible = True,
        conflicto = None\<rparr>
       \<in> set (handleBuscar [\<lparr>id_sal = 1, nombre = ''A'', capacidad = 30\<rparr>]
                 [\<lparr>salon_id = 1, user_id = 7, fecha_inicio = 200, fecha_fin = 300,
                   proposito = ''x'', id_res = 5\<rparr>] (Minimo 20) 100 200)
   \<and> set (map disponible
             (handleBuscar [\<lparr>id_sal = 1, nombre = ''A'', capacidad = 30\<rparr>]
                 [\<lparr>salon_id = 1, user_id = 7, fecha_inicio = 200, fecha_fin = 300,
                   proposito = ''x'', id_res = 5\<rparr>] (Minimo 20) 100 200)) = {True}
   \<and> map salon
        (handleBuscar [\<lparr>id_sal = 1, nombre = ''A'', capacidad = 30\<rparr>,
                       \<lparr>id_sal = 2, nombre = ''B'', capacidad = 10\<rparr>]
           [\<lparr>salon_id = 1, user_id = 7, fecha_inicio = 200, fecha_fin = 300,
              proposito = ''x'', id_res = 5\<rparr>] Sin_minimo 100 201)
       = [\<lparr>id_sal = 1, nombre = ''A'', capacidad = 30\<rparr>,
          \<lparr>id_sal = 2, nombre = ''B'', capacidad = 10\<rparr>]"
proof -
  let ?s = "\<lparr>id_sal = 1, nombre = ''A'', capacidad = 30\<rparr>"
  let ?s2 = "\<lparr>id_sal = 2, nombre = ''B'', capacidad = 10\<rparr>"
  let ?r = "\<lparr>salon_id = 1, user_id = 7, fecha_inicio = 200, fecha_fin = 300,
             proposito = ''x'', id_res = 5\<rparr>"
  note adjacent = availability_overlap_iff
                    [of ?s ?r 100 "200" "[?s]" "[?r]" "Minimo 20"]
  note inside = availability_overlap_iff [of ?s ?r 100 201 "[?s, ?s2]" "[?r]"]
  have "fecha_inicio ?r = 200" by simp
  with adjacent have "handleBuscar [?s] [?r] Sin_minimo 100 200
                        = [\<lparr>salon = ?s, disponible = True, conflicto = None\<rparr>]"
    by simp
  moreover from inside have "handleBuscar [?s] [?r] Sin_minimo 100 201
                        = [\<lparr>salon = ?s, disponible = False, conflicto = Some ?r\<rparr>]"
    by simp
  moreover have mem: "\<lparr>salon = ?s, disponible = True, conflicto = None\<rparr>
                        \<in> set (handleBuscar [?s] [?r] (Minimo 20) 100 200)"
    by code_simp
  moreover from adjacent
  have "\<forall>e \<in> set (handleBuscar [?s] [?r] (Minimo 20) 100 200). disponible e"
    by auto
  with mem have "set (map disponible (handleBuscar [?s] [?r] (Minimo 20) 100 200)) = {True}"
    by auto
  moreover from inside
  have "map salon (handleBuscar [?s, ?s2] [?r] Sin_minimo 100 201) = [?s, ?s2]"
    by blast
  ultimately show ?thesis by blast
qed

text \<open>
  C5. Two reservations of one room, 10:00-11:00 and 11:00-12:00 of the same day, in
  that snapshot order; the window is 10:30-11:30. Both reservations overlap the window
  (10:30 < 11:00 and 11:30 > 10:00 for the first one), and \<^verbatim>\<open>find\<close> returns the first
  match: the room is unavailable and the one reported conflict is the first reservation.
  Times are milliseconds after the local midnight \<open>t0\<close> of the day.
\<close>

theorem two_adjacent_reservations_first_wins:
  "handleBuscar [s]
     [\<lparr>salon_id = id_sal s, user_id = u1, fecha_inicio = t0 + 36000000,
        fecha_fin = t0 + 39600000, proposito = p1, id_res = i1\<rparr>,
      \<lparr>salon_id = id_sal s, user_id = u2, fecha_inicio = t0 + 39600000,
        fecha_fin = t0 + 43200000, proposito = p2, id_res = i2\<rparr>]
     Sin_minimo (t0 + 37800000) (t0 + 41400000)
   = [\<lparr>salon = s, disponible = False,
       conflicto = Some \<lparr>salon_id = id_sal s, user_id = u1, fecha_inicio = t0 + 36000000,
                         fecha_fin = t0 + 39600000, proposito = p1, id_res = i1\<rparr>\<rparr>]"
  by (simp add: handleBuscar_def solapa_def Let_def)

theorem two_adjacent_reservations_counterexample:
  "map conflicto
     (handleBuscar [\<lparr>id_sal = 1, nombre = ''A'', capacidad = 30\<rparr>]
        [\<lparr>salon_id = 1, user_id = 7, fecha_inicio = 36000000, fecha_fin = 39600000,
           proposito = ''first'', id_res = 1\<rparr>,
         \<lparr>salon_id = 1, user_id = 7, fecha_inicio = 39600000, fecha_fin = 43200000,
           proposito = ''second'', id_res = 2\<rparr>]
        Sin_minimo 37800000 41400000)
   \<noteq> [Some \<lparr>salon_id = 1, user_id = 7, fecha_inicio = 39600000, fecha_fin = 43200000,
              proposito = ''second'', id_res = 2\<rparr>]"
  by (simp add: handleBuscar_def solapa_def Let_def)

subsection \<open>Card status\<close>

text \<open>
  C9. The card view calls a room occupied if and only if some reservation of that room
  has \<open>start \<le> now\<close> and \<open>end \<ge> now\<close>, both inclusive, and available otherwise. A
  reservation that ends exactly now keeps the room occupied, while the availability
  query, asked for a window that starts now, does not count that reservation.
\<close>

theorem card_status_closed_interval:
  "(getSalonStatus reservas now salonId = ''ocupado'' \<longleftrightarrow>
      (\<exists>r \<in> set reservas. salon_id r = salonId \<and> fecha_inicio r \<le> now \<and> fecha_fin r \<ge> now))
   \<and> (getSalonStatus reservas now salonId = ''disponible'' \<longleftrightarrow>
      \<not> (\<exists>r \<in> set reservas. salon_id r = salonId \<and> fecha_inicio r \<le> now \<and> fecha_fin r \<ge> now))
   \<and> (\<forall>r \<in> set reservas. salon_id r = salonId \<and> fecha_inicio r \<le> now \<and> fecha_fin r = now \<longrightarrow>
        getSalonStatus reservas now salonId = ''ocupado''
        \<and> (\<forall>s fin. id_sal s = salonId \<longrightarrow> \<not> solapa s now fin r))"
proof -
  let ?act = "filter (\<lambda>r. salon_id r = salonId \<and> fecha_inicio r \<le> now \<and> fecha_fin r \<ge> now)
                     reservas"
  have len: "(length ?act > 0) =
             (\<exists>r \<in> set reservas. salon_id r = salonId \<and> fecha_inicio r \<le> now \<and> fecha_fin r \<ge> now)"
    by (auto simp: filter_empty_conv)
  have occ: "getSalonStatus reservas now salonId = ''ocupado'' \<longleftrightarrow> length ?act > 0"
    by (simp add: getSalonStatus_def Let_def)
  have av: "getSalonStatus reservas now salonId = ''disponible'' \<longleftrightarrow> \<not> length ?act > 0"
    by (simp add: getSalonStatus_def Let_def)
  show ?thesis
    unfolding occ av len by (auto simp: solapa_def)
qed

theorem card_status_closed_interval_witness:
  "getSalonStatus
     [\<lparr>salon_id = 1, user_id = 7, fecha_inicio = 200, fecha_fin = 300, proposito = ''x'',
       id_res = 5\<rparr>] 300 1 = ''ocupado''
   \<and> \<not> solapa \<lparr>id_sal = 1, nombre = ''A'', capacidad = 30\<rparr> 300 400
        \<lparr>salon_id = 1, user_id = 7, fecha_inicio = 200, fecha_fin = 300, proposito = ''x'',
          id_res = 5\<rparr>"
proof -
  let ?r = "\<lparr>salon_id = 1, user_id = 7, fecha_inicio = 200, fecha_fin = 300,
             proposito = ''x'', id_res = 5\<rparr>"
  note t = card_status_closed_interval [of "[?r]" 300 1]
  from t have "getSalonStatus [?r] 300 1 = ''ocupado''" by simp
  moreover from t have "\<not> solapa \<lparr>id_sal = 1, nombre = ''A'', capacidad = 30\<rparr> 300 400 ?r"
    by simp
  ultimately show ?thesis by simp
qed

subsection \<open>Binary64 rounding\<close>

text \<open>
  The exponent is the binary exponent of the number, and the rounded value lies within
  half a unit in the last place of it.
\<close>

lemma log2p_le: "0 < n \<Longrightarrow> 2 ^ log2p n \<le> n"
proof (induction n rule: log2p.induct)
  case (1 n)
  show ?case
  proof (cases "n < 2")
    case True
    with 1 show ?thesis by (simp add: log2p.simps)
  next
    case False
    then have "0 < n div 2" by simp
    with 1 False have "2 ^ log2p (n div 2) \<le> n div 2" by simp
    then have "2 * 2 ^ log2p (n div 2) \<le> n" by simp
    with False show ?thesis by (simp add: log2p.simps [of n])
  qed
qed

lemma log2p_lt: "n < 2 * 2 ^ log2p n"
proof (induction n rule: log2p.induct)
  case (1 n)
  show ?case
  proof (cases "n < 2")
    case True
    then show ?thesis by (simp add: log2p.simps)
  next
    case False
    with 1 have "n div 2 < 2 * 2 ^ log2p (n div 2)" by simp
    then have "n < 2 * (2 * 2 ^ log2p (n div 2))" by linarith
    with False show ?thesis by (simp add: log2p.simps [of n])
  qed
qed

lemma exponente_correcto:
  assumes "0 < a"
  shows "2 powi exponente a \<le> a \<and> a < 2 powi (exponente a + 1)"
proof (cases "1 \<le> a")
  case True
  define n where "n = nat \<lfloor>a\<rfloor>"
  have pos: "0 < n" using True by (simp add: n_def)
  have fl: "of_nat n \<le> a" "a < of_nat n + 1"
    using True by (simp_all add: n_def) linarith
  have "(2::rat) ^ log2p n = of_nat (2 ^ log2p n)" by simp
  also have "\<dots> \<le> of_nat n" using log2p_le [OF pos] by (simp only: of_nat_le_iff)
  also note fl(1)
  finally have lo: "(2::rat) ^ log2p n \<le> a" .
  have "n + 1 \<le> 2 * 2 ^ log2p n" using log2p_lt [of n] by simp
  then have "(of_nat (n + 1) :: rat) \<le> of_nat (2 * 2 ^ log2p n)" by (simp only: of_nat_le_iff)
  then have "(of_nat n :: rat) + 1 \<le> 2 * 2 ^ log2p n" by simp
  with fl(2) have hi: "a < 2 * 2 ^ log2p n" by (rule less_le_trans)
  have e: "exponente a = int (log2p n)" using True by (simp add: exponente_def n_def)
  have p1: "(2::rat) powi (int (log2p n) + 1) = 2 * 2 ^ log2p n"
    by (simp add: power_int_add)
  show ?thesis unfolding e p1 using lo hi by simp
next
  case False
  define b where "b = 1 / a"
  define n where "n = nat (\<lceil>b\<rceil> - 1)"
  have b1: "1 < b" using False assms by (simp add: b_def)
  then have c2: "2 \<le> \<lceil>b\<rceil>" by linarith
  then have pos: "0 < n" by (simp add: n_def)
  have nb: "of_nat n < b" "b \<le> of_nat n + 1"
    using c2 by (simp_all add: n_def) linarith+
  have "(2::rat) ^ log2p n = of_nat (2 ^ log2p n)" by simp
  also have "\<dots> \<le> of_nat n" using log2p_le [OF pos] by (simp only: of_nat_le_iff)
  also note nb(1)
  finally have lo: "(2::rat) ^ log2p n < b" .
  have "n + 1 \<le> 2 * 2 ^ log2p n" using log2p_lt [of n] by simp
  then have "(of_nat (n + 1) :: rat) \<le> of_nat (2 * 2 ^ log2p n)" by (simp only: of_nat_le_iff)
  then have "(of_nat n :: rat) + 1 \<le> 2 * 2 ^ log2p n" by simp
  with nb(2) have hi: "b \<le> 2 * 2 ^ log2p n" by (rule order_trans)
  have e: "exponente a = - int (Suc (log2p n))"
    using False by (simp add: exponente_def n_def b_def)
  have "(2::rat) powi (- int (Suc (log2p n))) = inverse (2 ^ Suc (log2p n))"
    by (simp only: power_int_minus power_int_of_nat)
  then have p0: "(2::rat) powi (- int (Suc (log2p n))) = 1 / (2 * 2 ^ log2p n)"
    by (simp add: field_simps)
  have "- int (Suc (log2p n)) + 1 = - int (log2p n)" by simp
  then have "(2::rat) powi (- int (Suc (log2p n)) + 1) = inverse (2 ^ log2p n)"
    by (simp only: power_int_minus power_int_of_nat)
  then have p1: "(2::rat) powi (- int (Suc (log2p n)) + 1) = 1 / 2 ^ log2p n"
    by (simp add: field_simps)
  have a: "1 / b = a" using assms by (simp add: b_def)
  have bpos: "0 < b" using b1 by simp
  have "1 / (2 * 2 ^ log2p n) \<le> 1 / b"
    using hi bpos by (intro divide_left_mono) simp_all
  moreover have "1 / b < 1 / 2 ^ log2p n"
    using lo bpos by (intro divide_strict_left_mono) simp_all
  ultimately have "1 / (2 * 2 ^ log2p n) \<le> a \<and> a < 1 / 2 ^ log2p n"
    unfolding a by simp
  then show ?thesis unfolding e p0 p1 .
qed

lemma redondeo64_error:
  "\<bar>redondeo64 x - x\<bar> \<le> 2 powi (exponente \<bar>x\<bar> - 53)"
proof (cases "x = 0")
  case True
  then show ?thesis by (simp add: redondeo64_def)
next
  case False
  define e where "e = exponente \<bar>x\<bar> - 52"
  define m where "m = \<bar>x\<bar> / 2 powi e"
  define f where "f = \<lfloor>m\<rfloor>"
  define n where "n = (if m - of_int f < 1 / 2 then f
                       else if 1 / 2 < m - of_int f then f + 1
                       else if even f then f else f + 1)"
  have p: "(0::rat) < 2 powi e" by simp
  have r: "redondeo64 x = sgn x * of_int n * 2 powi e"
    using False by (simp add: redondeo64_def Let_def e_def m_def f_def n_def)
  have x: "x = sgn x * m * 2 powi e"
    using p by (simp add: m_def mult_sgn_abs)
  have fm: "of_int f \<le> m" "m < of_int f + 1"
    by (simp_all add: f_def) linarith
  have nm: "\<bar>of_int n - m\<bar> \<le> 1 / 2"
    using fm by (auto simp: n_def abs_if)
  have "redondeo64 x - x = sgn x * (of_int n - m) * 2 powi e"
    by (subst r, subst (2) x) (simp add: algebra_simps)
  then have "\<bar>redondeo64 x - x\<bar> = \<bar>of_int n - m\<bar> * 2 powi e"
    using False p by (simp add: abs_mult abs_sgn_eq)
  also have "\<dots> \<le> 1 / 2 * 2 powi e"
    using nm p by (intro mult_right_mono) simp_all
  also have "\<dots> = 2 powi (e - 1)"
    by (simp add: power_int_diff)
  finally show ?thesis by (simp add: e_def)
qed







subsection \<open>Timeline layout\<close>








lemma LocalTime_fija: "LocalTime (zona_fija tza) t = t + tza"
  by (simp add: LocalTime_def zona_fija_def)






subsection \<open>Recurrence expander\<close>

text \<open>
  The loop, solved: it visits the occurrences up to the first one past the stop date,
  probes each, and sorts them into rows to write and conflicts.
\<close>

lemma setDate_inicio_k: "setDate_mas z t (int k * 7) = inicio_k z t k"
  by (simp add: setDate_mas_def inicio_k_def mult.commute)

lemma hay_existentes_en_conflicto:
  "hay_existentes (select_reservas be (consulta_conflicto sal (inicio_k z inicioBase k)
                                          (inicio_k z finBase k)))
     = en_conflicto z be sal inicioBase finBase k"
  by (cases "select_reservas be (sonda_k z sal inicioBase finBase k)")
     (simp_all add: en_conflicto_def sonda_k_def)

lemma bucle_eq:
  "bucle z be sal usr form inicioBase finBase lmt ks acc =
     (let vistos = takeWhile (\<lambda>k. \<not> pasa_limite lmt (inicio_k z inicioBase k)) ks
      in \<lparr>reservas_nuevas = reservas_nuevas acc @
             map (fila_k z sal usr form inicioBase finBase)
                 (filter (\<lambda>k. \<not> en_conflicto z be sal inicioBase finBase k) vistos),
          conflictos = conflictos acc @
             map (\<lambda>k. \<lparr>semana = k + 1, fecha = inicio_k z inicioBase k\<rparr>)
                 (filter (en_conflicto z be sal inicioBase finBase) vistos),
          consultas = consultas acc @
             map (\<lambda>k. Select (sonda_k z sal inicioBase finBase k)) vistos\<rparr>)"
proof (induction ks arbitrary: acc)
  case Nil
  show ?case by simp
next
  case (Cons k ks)
  show ?case
  proof (cases "pasa_limite lmt (inicio_k z inicioBase k)")
    case True
    then show ?thesis by (simp add: setDate_inicio_k)
  next
    case False
    show ?thesis
    proof (cases "en_conflicto z be sal inicioBase finBase k")
      case True
      with False show ?thesis
        using hay_existentes_en_conflicto [of be sal z inicioBase k finBase]
        by (simp add: Cons.IH Let_def setDate_inicio_k sonda_k_def)
    next
      case nc: False
      with False show ?thesis
        using hay_existentes_en_conflicto [of be sal z inicioBase k finBase]
        by (simp add: Cons.IH Let_def setDate_inicio_k sonda_k_def fila_k_def)
    qed
  qed
qed

lemma bucle_inicial:
  "bucle z be sal usr form inicioBase finBase (calcular_fechaLimite form)
         (indices (calcular_numReservas form inicioBase))
         \<lparr>reservas_nuevas = [], conflictos = [], consultas = []\<rparr> =
     \<lparr>reservas_nuevas =
        map (fila_k z sal usr form inicioBase finBase)
            (filter (\<lambda>k. \<not> en_conflicto z be sal inicioBase finBase k)
                    (ocurrencias z form inicioBase)),
      conflictos =
        map (\<lambda>k. \<lparr>semana = k + 1, fecha = inicio_k z inicioBase k\<rparr>)
            (filter (en_conflicto z be sal inicioBase finBase) (ocurrencias z form inicioBase)),
      consultas =
        map (\<lambda>k. Select (sonda_k z sal inicioBase finBase k)) (ocurrencias z form inicioBase)\<rparr>"
  by (simp add: bucle_eq ocurrencias_def Let_def)

lemma crear_con_conflictos:
  assumes "filter (en_conflicto z be sal inicioBase finBase) (ocurrencias z form inicioBase) \<noteq> []"
  shows "crearReservasRecurrentes z be sal usr form inicioBase finBase =
           \<lparr>salida = Inl (Error_conflictos
                (map (\<lambda>k. \<lparr>semana = k + 1, fecha = inicio_k z inicioBase k\<rparr>)
                     (filter (en_conflicto z be sal inicioBase finBase)
                             (ocurrencias z form inicioBase)))),
            llamadas = map (\<lambda>k. Select (sonda_k z sal inicioBase finBase k))
                           (ocurrencias z form inicioBase)\<rparr>"
  using assms by (simp add: crearReservasRecurrentes_def bucle_inicial Let_def)

lemma crear_sin_conflictos:
  assumes "filter (en_conflicto z be sal inicioBase finBase) (ocurrencias z form inicioBase) = []"
  shows "crearReservasRecurrentes z be sal usr form inicioBase finBase =
           \<lparr>salida =
              (case insert_reservas be (map (fila_k z sal usr form inicioBase finBase)
                                            (ocurrencias z form inicioBase)) of
                 Some insertError \<Rightarrow> Inl (Insert_error insertError)
               | None \<Rightarrow> Inr (Reservas_creadas (length (ocurrencias z form inicioBase)))),
            llamadas = map (\<lambda>k. Select (sonda_k z sal inicioBase finBase k))
                           (ocurrencias z form inicioBase)
                       @ [Insert (map (fila_k z sal usr form inicioBase finBase)
                                      (ocurrencias z form inicioBase))]\<rparr>"
proof -
  from assms have all: "filter (\<lambda>k. \<not> en_conflicto z be sal inicioBase finBase k)
                           (ocurrencias z form inicioBase) = ocurrencias z form inicioBase"
    by (simp add: filter_empty_conv)
  show ?thesis
    using assms
    by (simp add: crearReservasRecurrentes_def bucle_inicial Let_def all split: option.split)
qed

text \<open>
  C2. When the occurrences whose probe finds at least one existing row are not none, no
  insert is issued and the error names exactly those occurrences, 1-indexed, in order.
  When there are none, the calls are the probes followed by one insert that holds the
  row of every generated occurrence.
\<close>

theorem all_or_nothing:
  "(filter (en_conflicto z be sal inicioBase finBase) (ocurrencias z form inicioBase) \<noteq> [] \<longrightarrow>
      (\<forall>filas. Insert filas \<notin> set (llamadas (crearReservasRecurrentes z be sal usr form inicioBase finBase)))
      \<and> (\<exists>cs. salida (crearReservasRecurrentes z be sal usr form inicioBase finBase)
                  = Inl (Error_conflictos cs)
               \<and> map semana cs = map (\<lambda>k. k + 1)
                    (filter (en_conflicto z be sal inicioBase finBase)
                            (ocurrencias z form inicioBase))))
   \<and> (filter (en_conflicto z be sal inicioBase finBase) (ocurrencias z form inicioBase) = [] \<longrightarrow>
      llamadas (crearReservasRecurrentes z be sal usr form inicioBase finBase)
        = map (\<lambda>k. Select (sonda_k z sal inicioBase finBase k)) (ocurrencias z form inicioBase)
          @ [Insert (map (fila_k z sal usr form inicioBase finBase)
                         (ocurrencias z form inicioBase))])"
proof (intro conjI impI)
  assume c: "filter (en_conflicto z be sal inicioBase finBase) (ocurrencias z form inicioBase) \<noteq> []"
  note r = crear_con_conflictos [OF c, of usr]
  show "\<forall>filas. Insert filas \<notin> set (llamadas (crearReservasRecurrentes z be sal usr form inicioBase finBase))"
    by (auto simp: r)
  show "\<exists>cs. salida (crearReservasRecurrentes z be sal usr form inicioBase finBase)
                  = Inl (Error_conflictos cs)
               \<and> map semana cs = map (\<lambda>k. k + 1)
                    (filter (en_conflicto z be sal inicioBase finBase)
                            (ocurrencias z form inicioBase))"
    by (simp add: r comp_def)
next
  assume c: "filter (en_conflicto z be sal inicioBase finBase) (ocurrencias z form inicioBase) = []"
  show "llamadas (crearReservasRecurrentes z be sal usr form inicioBase finBase)
        = map (\<lambda>k. Select (sonda_k z sal inicioBase finBase k)) (ocurrencias z form inicioBase)
          @ [Insert (map (fila_k z sal usr form inicioBase finBase)
                         (ocurrencias z form inicioBase))]"
    by (simp add: crear_sin_conflictos [OF c])
qed

theorem all_or_nothing_witness:
  "(\<forall>filas. Insert filas \<notin> set (llamadas (crearReservasRecurrentes (zona_fija 0)
        (supabase_tabla [\<lparr>salon_id = 1, user_id = 9, fecha_inicio = 640800000,
                           fecha_fin = 642600000, proposito = ''Otra'', id_res = 3\<rparr>])
        \<lparr>id_sal = 1, nombre = ''A'', capacidad = 30\<rparr> \<lparr>id_usr = 7\<rparr>
        \<lparr>proposito_form = ''Clase'', esRecurrente = True, tipoRecurrencia = ''weeks'',
         numSemanas = Some 2, fechaFinRecurrencia = None\<rparr>
        36000000 39600000)))
   \<and> (\<exists>cs. salida (crearReservasRecurrentes (zona_fija 0)
        (supabase_tabla [\<lparr>salon_id = 1, user_id = 9, fecha_inicio = 640800000,
                           fecha_fin = 642600000, proposito = ''Otra'', id_res = 3\<rparr>])
        \<lparr>id_sal = 1, nombre = ''A'', capacidad = 30\<rparr> \<lparr>id_usr = 7\<rparr>
        \<lparr>proposito_form = ''Clase'', esRecurrente = True, tipoRecurrencia = ''weeks'',
         numSemanas = Some 2, fechaFinRecurrencia = None\<rparr>
        36000000 39600000) = Inl (Error_conflictos cs) \<and> map semana cs = [2])
   \<and> llamadas (crearReservasRecurrentes (zona_fija 0) (supabase_tabla [])
        \<lparr>id_sal = 1, nombre = ''A'', capacidad = 30\<rparr> \<lparr>id_usr = 7\<rparr>
        \<lparr>proposito_form = ''Clase'', esRecurrente = True, tipoRecurrencia = ''weeks'',
         numSemanas = Some 2, fechaFinRecurrencia = None\<rparr>
        36000000 39600000)
      = [Select [Eq Col_salon_id 1,
                 Or_f [And_f [Lte Col_fecha_inicio 39600000, Gte Col_fecha_fin 36000000]]],
         Select [Eq Col_salon_id 1,
                 Or_f [And_f [Lte Col_fecha_inicio 644400000, Gte Col_fecha_fin 640800000]]],
         Insert [\<lparr>salon_id = 1, user_id = 7, fecha_inicio = 36000000,
                   fecha_fin = 39600000, proposito = ''Clase (Semana 1)''\<rparr>,
                 \<lparr>salon_id = 1, user_id = 7, fecha_inicio = 640800000,
                   fecha_fin = 644400000, proposito = ''Clase (Semana 2)''\<rparr>]]"
proof -
  let ?z = "zona_fija 0"
  let ?be1 = "supabase_tabla [\<lparr>salon_id = 1, user_id = 9, fecha_inicio = 640800000,
                           fecha_fin = 642600000, proposito = ''Otra'', id_res = 3\<rparr>]"
  let ?be0 = "supabase_tabla []"
  let ?sal = "\<lparr>id_sal = 1, nombre = ''A'', capacidad = 30\<rparr>"
  let ?usr = "\<lparr>id_usr = 7\<rparr>"
  let ?form = "\<lparr>proposito_form = ''Clase'', esRecurrente = True, tipoRecurrencia = ''weeks'',
         numSemanas = Some 2, fechaFinRecurrencia = None\<rparr>"
  have c1: "filter (en_conflicto ?z ?be1 ?sal 36000000 39600000) (ocurrencias ?z ?form 36000000)
              = [1]"
    by code_simp
  note t1 = all_or_nothing [of ?z ?be1 ?sal 36000000 39600000 ?form ?usr]
  from t1 c1 have a: "\<forall>filas. Insert filas \<notin> set (llamadas
        (crearReservasRecurrentes ?z ?be1 ?sal ?usr ?form 36000000 39600000))"
    by simp
  from t1 c1 have b: "\<exists>cs. salida (crearReservasRecurrentes ?z ?be1 ?sal ?usr ?form 36000000 39600000)
                         = Inl (Error_conflictos cs) \<and> map semana cs = [2]"
    by (simp add: numeral_2_eq_2)
  have c0: "filter (en_conflicto ?z ?be0 ?sal 36000000 39600000) (ocurrencias ?z ?form 36000000)
              = []"
    by code_simp
  have rhs: "map (\<lambda>k. Select (sonda_k ?z ?sal 36000000 39600000 k)) (ocurrencias ?z ?form 36000000)
          @ [Insert (map (fila_k ?z ?sal ?usr ?form 36000000 39600000)
                         (ocurrencias ?z ?form 36000000))]
      = [Select [Eq Col_salon_id 1,
                 Or_f [And_f [Lte Col_fecha_inicio 39600000, Gte Col_fecha_fin 36000000]]],
         Select [Eq Col_salon_id 1,
                 Or_f [And_f [Lte Col_fecha_inicio 644400000, Gte Col_fecha_fin 640800000]]],
         Insert [\<lparr>salon_id = 1, user_id = 7, fecha_inicio = 36000000,
                   fecha_fin = 39600000, proposito = ''Clase (Semana 1)''\<rparr>,
                 \<lparr>salon_id = 1, user_id = 7, fecha_inicio = 640800000,
                   fecha_fin = 644400000, proposito = ''Clase (Semana 2)''\<rparr>]]"
    by code_simp
  from all_or_nothing [of ?z ?be0 ?sal 36000000 39600000 ?form ?usr] c0
  have c: "llamadas (crearReservasRecurrentes ?z ?be0 ?sal ?usr ?form 36000000 39600000)
      = map (\<lambda>k. Select (sonda_k ?z ?sal 36000000 39600000 k)) (ocurrencias ?z ?form 36000000)
          @ [Insert (map (fila_k ?z ?sal ?usr ?form 36000000 39600000)
                         (ocurrencias ?z ?form 36000000))]"
    by blast
  show ?thesis
    using a b c [unfolded rhs] by blast
qed

text \<open>In a zone with a constant offset, moving the local day moves the instant by whole days.\<close>

lemma UTC_fija: "UTC_de_local (zona_fija tza) l = l - tza"
  by (simp add: UTC_de_local_def zona_fija_def)

lemma setDate_fija: "setDate_mas (zona_fija tza) t n = t + n * 86400000"
  by (simp add: setDate_mas_def LocalTime_fija UTC_fija)

lemma inicio_k_fija: "inicio_k (zona_fija tza) t k = t + 7 * int k * 86400000"
  by (simp add: inicio_k_def LocalTime_fija UTC_fija)

lemma bucle_fija:
  "bucle (zona_fija tza) be sal usr form inicioBase finBase lmt ks acc
     = bucle (zona_fija 0) be sal usr form inicioBase finBase lmt ks acc"
  by (induction ks arbitrary: acc) (simp_all add: setDate_fija Let_def)

lemma crear_fija:
  "crearReservasRecurrentes (zona_fija tza) be sal usr form inicioBase finBase
     = crearReservasRecurrentes (zona_fija 0) be sal usr form inicioBase finBase"
  by (simp add: crearReservasRecurrentes_def bucle_fija [of tza])

text \<open>
  A recurrence bounded by a stop date \<open>D\<close> on or after the base start, in a zone with a
  constant offset: the occurrences are exactly the weeks that start on or before \<open>D\<close>.
\<close>

lemma takeWhile_menor: "takeWhile (\<lambda>k. k < K) [0 ..< N] = [0 ..< min K N]"
proof (induction N)
  case 0
  show ?case by simp
next
  case (Suc N)
  have split: "[0 ..< Suc N] = [0 ..< N] @ [N]" by simp
  show ?case
  proof (cases "N < K")
    case True
    then have "takeWhile (\<lambda>k. k < K) ([0 ..< N] @ [N]) = [0 ..< N] @ [N]"
      by (simp add: takeWhile_append2)
    moreover from True have "min K (Suc N) = Suc N" by simp
    ultimately show ?thesis by (simp only: split)
  next
    case False
    then have mins: "min K (Suc N) = K" "min K N = K" by simp_all
    show ?thesis
    proof (cases "K = N")
      case True
      have "takeWhile (\<lambda>k. k < K) ([0 ..< N] @ [N])
              = [0 ..< N] @ takeWhile (\<lambda>k. k < K) [N]"
        by (rule takeWhile_append2) (simp add: True)
      with True have "takeWhile (\<lambda>k. k < K) ([0 ..< N] @ [N]) = [0 ..< N]"
        by simp
      then show ?thesis by (simp only: split mins(1)) (simp add: True)
    next
      case ne: False
      with False have "K \<in> set [0 ..< N]" by simp
      then have "takeWhile (\<lambda>k. k < K) ([0 ..< N] @ [N]) = takeWhile (\<lambda>k. k < K) [0 ..< N]"
        by (rule takeWhile_append1) simp
      with Suc show ?thesis by (simp only: split mins)
    qed
  qed
qed

lemma ocurrencias_hasta_fecha:
  assumes "tipoRecurrencia form \<noteq> ''weeks''" and "fechaFinRecurrencia form = Some D"
    and "inicioBase \<le> D"
  shows "ocurrencias (zona_fija tza) form inicioBase
           = [0 ..< nat ((D - inicioBase) div 604800000 + 1)]"
proof -
  define x where "x = D - inicioBase"
  define K where "K = nat (x div 604800000 + 1)"
  define n where "n = (- ((- x) div 86400000)) div 7 + 1"
  have x0: "0 \<le> x" using assms(3) by (simp add: x_def)
  have num: "calcular_numReservas form inicioBase = Some n"
    using assms x0 by (simp add: calcular_numReservas_def Let_def n_def x_def)
  have lim: "calcular_fechaLimite form = Some (Some D)"
    using assms by (simp add: calcular_fechaLimite_def)
  have "x div 86400000 \<le> - ((- x) div 86400000)" by linarith
  then have "x div 86400000 div 7 \<le> (- ((- x) div 86400000)) div 7"
    by (rule zdiv_mono1) simp
  moreover have "x div 86400000 div 7 = x div 604800000"
    using zdiv_zmult2_eq [of 7 x 86400000] by simp
  ultimately have "x div 604800000 + 1 \<le> n" by (simp add: n_def)
  then have Kn: "K \<le> nat n" unfolding K_def by (rule nat_mono)
  have P: "(\<not> D < inicio_k (zona_fija tza) inicioBase k) = (k < K)" for k
  proof -
    have "(inicioBase + 7 * int k * 86400000 \<le> D) = (int k * 604800000 \<le> x)"
      by (simp add: x_def algebra_simps)
    also have "\<dots> = (int k \<le> x div 604800000)"
      by linarith
    also have "\<dots> = (k < K)" using x0 by (auto simp: K_def)
    finally show ?thesis by (simp add: inicio_k_fija not_less)
  qed
  have "ocurrencias (zona_fija tza) form inicioBase = takeWhile (\<lambda>k. k < K) [0 ..< nat n]"
    by (simp add: ocurrencias_def num lim P)
  also have "\<dots> = [0 ..< K]" using Kn by (simp add: takeWhile_menor min_def)
  finally show ?thesis by (simp add: K_def x_def)
qed

lemma ocurrencias_weeks:
  "tipoRecurrencia form = ''weeks'' \<Longrightarrow> numSemanas form = Some n \<Longrightarrow>
     ocurrencias z form inicioBase = [0 ..< nat n]"
  by (simp add: ocurrencias_def calcular_fechaLimite_def calcular_numReservas_def)

lemma cuatro: "[0 ..< nat 4] = [0, Suc 0, Suc (Suc 0), Suc (Suc (Suc 0))]"
  by (simp add: upt_rec [of 0] upt_rec [of "Suc 0"] upt_rec [of "Suc (Suc 0)"]
                upt_rec [of "Suc (Suc (Suc 0))"] eval_nat_numeral)

text \<open>
  C6, as amended. A recurrence by weeks with count 4 whose four probes succeed and
  return no row: after the four probes exactly one insert is issued, of exactly four
  rows. The start and the end of occurrence \<open>k\<close> are the instants that the zone gives to
  the local date and time of the base start and of the base end, moved \<open>7k\<close> calendar
  days. Where the zone reads each of those local times with the offset it had at the
  base start and at the base end (no change of offset in between), the first occurrence
  starts at the base start, each next one starts exactly 7 days (7 * 86400000 ms) after
  its predecessor, and each lasts as long as the base window. When the backend accepts
  the insert, the success message counts 4.
\<close>

theorem weekly_four:
  assumes weeks: "tipoRecurrencia form = ''weeks''" and four: "numSemanas form = Some 4"
    and probes: "\<forall>k<4. select_reservas be (sonda_k z sal inicioBase finBase k) = Some []"
  shows "\<exists>f0 f1 f2 f3.
           llamadas (crearReservasRecurrentes z be sal usr form inicioBase finBase)
             = map (\<lambda>k. Select (sonda_k z sal inicioBase finBase k)) [0, 1, 2, 3]
               @ [Insert [f0, f1, f2, f3]]
         \<and> (insert_reservas be [f0, f1, f2, f3] = None \<longrightarrow>
              salida (crearReservasRecurrentes z be sal usr form inicioBase finBase)
                = Inr (Reservas_creadas 4))
         \<and> fecha_inicio f0 = UTC_de_local z (LocalTime z inicioBase)
         \<and> fecha_inicio f1 = UTC_de_local z (LocalTime z inicioBase + 7 * 86400000)
         \<and> fecha_inicio f2 = UTC_de_local z (LocalTime z inicioBase + 14 * 86400000)
         \<and> fecha_inicio f3 = UTC_de_local z (LocalTime z inicioBase + 21 * 86400000)
         \<and> fecha_fin f0 = UTC_de_local z (LocalTime z finBase)
         \<and> fecha_fin f1 = UTC_de_local z (LocalTime z finBase + 7 * 86400000)
         \<and> fecha_fin f2 = UTC_de_local z (LocalTime z finBase + 14 * 86400000)
         \<and> fecha_fin f3 = UTC_de_local z (LocalTime z finBase + 21 * 86400000)
         \<and> ((\<forall>k<4. ltza_local z (LocalTime z inicioBase + 7 * int k * 86400000)
                        = ltza_utc z inicioBase
                    \<and> ltza_local z (LocalTime z finBase + 7 * int k * 86400000)
                        = ltza_utc z finBase) \<longrightarrow>
                fecha_inicio f0 = inicioBase
              \<and> fecha_inicio f1 = fecha_inicio f0 + 7 * 86400000
              \<and> fecha_inicio f2 = fecha_inicio f1 + 7 * 86400000
              \<and> fecha_inicio f3 = fecha_inicio f2 + 7 * 86400000
              \<and> (\<forall>f \<in> set [f0, f1, f2, f3].
                    fecha_fin f - fecha_inicio f = finBase - inicioBase))"
proof -
  have occ: "ocurrencias z form inicioBase = [0, Suc 0, Suc (Suc 0), Suc (Suc (Suc 0))]"
    using ocurrencias_weeks [OF weeks four, of z inicioBase] by (simp only: cuatro)
  from probes have none:
    "filter (en_conflicto z be sal inicioBase finBase) (ocurrencias z form inicioBase) = []"
    by (simp add: occ en_conflicto_def eval_nat_numeral)
  note r = crear_sin_conflictos [OF none, of usr]
  let ?f = "fila_k z sal usr form inicioBase finBase"
  have sin_cambio:
    "inicio_k z inicioBase k = inicioBase + 7 * int k * 86400000
     \<and> inicio_k z finBase k = finBase + 7 * int k * 86400000"
    if "ltza_local z (LocalTime z inicioBase + 7 * int k * 86400000) = ltza_utc z inicioBase"
       "ltza_local z (LocalTime z finBase + 7 * int k * 86400000) = ltza_utc z finBase"
    for k
    using that by (simp add: inicio_k_def UTC_de_local_def LocalTime_def)
  show ?thesis
  proof (rule exI [of _ "?f 0"], rule exI [of _ "?f (Suc 0)"],
         rule exI [of _ "?f (Suc (Suc 0))"], rule exI [of _ "?f (Suc (Suc (Suc 0)))"],
         intro conjI impI)
    show "llamadas (crearReservasRecurrentes z be sal usr form inicioBase finBase)
             = map (\<lambda>k. Select (sonda_k z sal inicioBase finBase k)) [0, 1, 2, 3]
               @ [Insert [?f 0, ?f (Suc 0), ?f (Suc (Suc 0)), ?f (Suc (Suc (Suc 0)))]]"
      by (simp add: r occ eval_nat_numeral)
    show "salida (crearReservasRecurrentes z be sal usr form inicioBase finBase)
                = Inr (Reservas_creadas 4)"
      if "insert_reservas be [?f 0, ?f (Suc 0), ?f (Suc (Suc 0)), ?f (Suc (Suc (Suc 0)))] = None"
      using that by (simp add: r occ)
    show "fecha_inicio (?f 0) = UTC_de_local z (LocalTime z inicioBase)"
         "fecha_inicio (?f (Suc 0)) = UTC_de_local z (LocalTime z inicioBase + 7 * 86400000)"
         "fecha_inicio (?f (Suc (Suc 0))) = UTC_de_local z (LocalTime z inicioBase + 14 * 86400000)"
         "fecha_inicio (?f (Suc (Suc (Suc 0)))) = UTC_de_local z (LocalTime z inicioBase + 21 * 86400000)"
         "fecha_fin (?f 0) = UTC_de_local z (LocalTime z finBase)"
         "fecha_fin (?f (Suc 0)) = UTC_de_local z (LocalTime z finBase + 7 * 86400000)"
         "fecha_fin (?f (Suc (Suc 0))) = UTC_de_local z (LocalTime z finBase + 14 * 86400000)"
         "fecha_fin (?f (Suc (Suc (Suc 0)))) = UTC_de_local z (LocalTime z finBase + 21 * 86400000)"
      by (simp_all add: fila_k_def inicio_k_def)
  next
    assume c: "\<forall>k<4. ltza_local z (LocalTime z inicioBase + 7 * int k * 86400000)
                        = ltza_utc z inicioBase
                    \<and> ltza_local z (LocalTime z finBase + 7 * int k * 86400000)
                        = ltza_utc z finBase"
    have k: "inicio_k z inicioBase k = inicioBase + 7 * int k * 86400000
             \<and> inicio_k z finBase k = finBase + 7 * int k * 86400000" if "k < 4" for k
      using c that sin_cambio [of k] by blast
    note k0 = k [of 0] and k1 = k [of "Suc 0"] and k2 = k [of "Suc (Suc 0)"]
      and k3 = k [of "Suc (Suc (Suc 0))"]
    show "fecha_inicio (?f 0) = inicioBase"
         "fecha_inicio (?f (Suc 0)) = fecha_inicio (?f 0) + 7 * 86400000"
         "fecha_inicio (?f (Suc (Suc 0))) = fecha_inicio (?f (Suc 0)) + 7 * 86400000"
         "fecha_inicio (?f (Suc (Suc (Suc 0)))) = fecha_inicio (?f (Suc (Suc 0))) + 7 * 86400000"
         "\<forall>f \<in> set [?f 0, ?f (Suc 0), ?f (Suc (Suc 0)), ?f (Suc (Suc (Suc 0)))].
             fecha_fin f - fecha_inicio f = finBase - inicioBase"
      using k0 k1 k2 k3 by (simp_all add: fila_k_def)
  qed
qed

theorem weekly_four_witness:
  "\<exists>f0 f1 f2 f3.
     llamadas (crearReservasRecurrentes (zona_fija (- 18000000)) (supabase_tabla [])
        \<lparr>id_sal = 1, nombre = ''A'', capacidad = 30\<rparr> \<lparr>id_usr = 7\<rparr>
        \<lparr>proposito_form = ''Clase'', esRecurrente = True, tipoRecurrencia = ''weeks'',
         numSemanas = Some 4, fechaFinRecurrencia = None\<rparr>
        1710061200000 1710064800000)
       = map (\<lambda>k. Select (sonda_k (zona_fija (- 18000000))
                                \<lparr>id_sal = 1, nombre = ''A'', capacidad = 30\<rparr>
                                1710061200000 1710064800000 k)) [0, 1, 2, 3]
         @ [Insert [f0, f1, f2, f3]]
     \<and> salida (crearReservasRecurrentes (zona_fija (- 18000000)) (supabase_tabla [])
        \<lparr>id_sal = 1, nombre = ''A'', capacidad = 30\<rparr> \<lparr>id_usr = 7\<rparr>
        \<lparr>proposito_form = ''Clase'', esRecurrente = True, tipoRecurrencia = ''weeks'',
         numSemanas = Some 4, fechaFinRecurrencia = None\<rparr>
        1710061200000 1710064800000) = Inr (Reservas_creadas 4)
     \<and> fecha_inicio f0 = 1710061200000
     \<and> fecha_inicio f1 = fecha_inicio f0 + 7 * 86400000
     \<and> fecha_inicio f2 = fecha_inicio f1 + 7 * 86400000
     \<and> fecha_inicio f3 = fecha_inicio f2 + 7 * 86400000
     \<and> fecha_fin f0 - fecha_inicio f0 = 3600000
     \<and> fecha_fin f1 - fecha_inicio f1 = 3600000
     \<and> fecha_fin f2 - fecha_inicio f2 = 3600000
     \<and> fecha_fin f3 - fecha_inicio f3 = 3600000"
proof -
  let ?z = "zona_fija (- 18000000)"
  let ?sal = "\<lparr>id_sal = 1, nombre = ''A'', capacidad = 30\<rparr>"
  let ?usr = "\<lparr>id_usr = 7\<rparr>"
  let ?form = "\<lparr>proposito_form = ''Clase'', esRecurrente = True, tipoRecurrencia = ''weeks'',
         numSemanas = Some 4, fechaFinRecurrencia = None\<rparr>"
  have h1: "tipoRecurrencia ?form = ''weeks''" by simp
  have h2: "numSemanas ?form = Some 4" by simp
  have h3: "\<forall>k<4. select_reservas (supabase_tabla [])
                      (sonda_k ?z ?sal 1710061200000 1710064800000 k) = Some []"
    by (simp add: supabase_tabla_def)
  have h4: "\<forall>k<4. ltza_local ?z (LocalTime ?z 1710061200000 + 7 * int k * 86400000)
                        = ltza_utc ?z 1710061200000
                    \<and> ltza_local ?z (LocalTime ?z 1710064800000 + 7 * int k * 86400000)
                        = ltza_utc ?z 1710064800000"
    by (simp add: zona_fija_def)
  have ins: "insert_reservas (supabase_tabla []) fs = None" for fs
    by (simp add: supabase_tabla_def)
  from weekly_four [OF h1 h2 h3, of ?usr] h4 show ?thesis
    by (simp add: ins) blast
qed

text \<open>
  Without those conditions the four rows need not be 7 days apart, and need not be
  written at all. In a zone that changes from UTC+1 to UTC+2 on 31 March 2024 at 01:00
  UTC, as Europe/Madrid does, the fourth occurrence of a 10:00-11:00 series that begins
  on 10 March starts 601200000 ms after the third, an hour short of 7 days. And with an
  existing reservation 09:00-10:00 that only touches the first occurrence 10:00-11:00,
  overlapping none of the four under the half-open test, no row is inserted.
\<close>

lemma madrid_inicios:
  "map fecha_inicio (filas_insertadas
     (crearReservasRecurrentes (zona_un_cambio 1711846800000 3600000 7200000) (supabase_tabla [])
        \<lparr>id_sal = 1, nombre = ''A'', capacidad = 30\<rparr> \<lparr>id_usr = 7\<rparr>
        \<lparr>proposito_form = ''Clase'', esRecurrente = True, tipoRecurrencia = ''weeks'',
         numSemanas = Some 4, fechaFinRecurrencia = None\<rparr>
        1710061200000 1710064800000))
   = [1710061200000, 1710666000000, 1711270800000, 1711872000000]"
  by code_simp

theorem weekly_four_counterexample:
  "map fecha_inicio (filas_insertadas
     (crearReservasRecurrentes (zona_un_cambio 1711846800000 3600000 7200000) (supabase_tabla [])
        \<lparr>id_sal = 1, nombre = ''A'', capacidad = 30\<rparr> \<lparr>id_usr = 7\<rparr>
        \<lparr>proposito_form = ''Clase'', esRecurrente = True, tipoRecurrencia = ''weeks'',
         numSemanas = Some 4, fechaFinRecurrencia = None\<rparr>
        1710061200000 1710064800000))
     \<noteq> [1710061200000, 1710061200000 + 7 * 86400000, 1710061200000 + 14 * 86400000,
         1710061200000 + 21 * 86400000]
   \<and> filas_insertadas
       (crearReservasRecurrentes (zona_fija 0)
          (supabase_tabla [\<lparr>salon_id = 1, user_id = 9, fecha_inicio = 32400000,
                             fecha_fin = 36000000, proposito = ''Otra'', id_res = 3\<rparr>])
          \<lparr>id_sal = 1, nombre = ''A'', capacidad = 30\<rparr> \<lparr>id_usr = 7\<rparr>
          \<lparr>proposito_form = ''Clase'', esRecurrente = True, tipoRecurrencia = ''weeks'',
           numSemanas = Some 4, fechaFinRecurrencia = None\<rparr>
          36000000 39600000) = []
   \<and> \<not> overlap 36000000 39600000 32400000 36000000
   \<and> \<not> overlap 640800000 644400000 32400000 36000000
   \<and> \<not> overlap 1245600000 1249200000 32400000 36000000
   \<and> \<not> overlap 1850400000 1854000000 32400000 36000000"
  by code_simp

subsection \<open>Submission\<close>

text \<open>
  C7. A submission whose end is not strictly after its start is rejected with the
  validation message before any call to the backend: the trace of calls is empty. The
  check covers the base window only, and the occurrences of a series are rebuilt in local
  time. In a zone that changes from UTC+1 to UTC+2 on 31 March 2024 at 01:00 UTC, a
  weekly series of four from 10 March, 02:30-03:15 local time, passes the check; its
  fourth occurrence falls on the night of the change, where 02:30 does not exist and is
  read as 01:30 UTC while 03:15 is read as 01:15 UTC, and that row is sent to the insert
  with its end 15 minutes before its start.
\<close>

theorem end_not_after_start_rejected:
  "(fin \<le> inicio \<longrightarrow>
      handleSubmit z be sal usr form inicio fin =
        \<lparr>salida = Inl (Error ''La fecha de fin debe ser posterior a la fecha de inicio''),
         llamadas = []\<rparr>)
   \<and> handleSubmit (zona_un_cambio 1711846800000 3600000 7200000) (supabase_tabla [])
        \<lparr>id_sal = 1, nombre = ''A'', capacidad = 30\<rparr> \<lparr>id_usr = 7\<rparr>
        \<lparr>proposito_form = ''Clase'', esRecurrente = True, tipoRecurrencia = ''weeks'',
         numSemanas = Some 4, fechaFinRecurrencia = None\<rparr>
        1710034200000 1710036900000
      = \<lparr>salida = Inr (Reservas_creadas 4),
         llamadas =
           [Select [Eq Col_salon_id 1,
                    Or_f [And_f [Lte Col_fecha_inicio 1710036900000,
                                 Gte Col_fecha_fin 1710034200000]]],
            Select [Eq Col_salon_id 1,
                    Or_f [And_f [Lte Col_fecha_inicio 1710641700000,
                                 Gte Col_fecha_fin 1710639000000]]],
            Select [Eq Col_salon_id 1,
                    Or_f [And_f [Lte Col_fecha_inicio 1711246500000,
                                 Gte Col_fecha_fin 1711243800000]]],
            Select [Eq Col_salon_id 1,
                    Or_f [And_f [Lte Col_fecha_inicio 1711847700000,
                                 Gte Col_fecha_fin 1711848600000]]],
            Insert [\<lparr>salon_id = 1, user_id = 7, fecha_inicio = 1710034200000,
                      fecha_fin = 1710036900000, proposito = ''Clase (Semana 1)''\<rparr>,
                    \<lparr>salon_id = 1, user_id = 7, fecha_inicio = 1710639000000,
                      fecha_fin = 1710641700000, proposito = ''Clase (Semana 2)''\<rparr>,
                    \<lparr>salon_id = 1, user_id = 7, fecha_inicio = 1711243800000,
                      fecha_fin = 1711246500000, proposito = ''Clase (Semana 3)''\<rparr>,
                    \<lparr>salon_id = 1, user_id = 7, fecha_inicio = 1711848600000,
                      fecha_fin = 1711847700000, proposito = ''Clase (Semana 4)''\<rparr>]]\<rparr>"
proof (intro conjI impI)
  assume "fin \<le> inicio"
  then show "handleSubmit z be sal usr form inicio fin =
        \<lparr>salida = Inl (Error ''La fecha de fin debe ser posterior a la fecha de inicio''),
         llamadas = []\<rparr>"
    by (simp add: handleSubmit_def)
qed code_simp

theorem end_not_after_start_rejected_witness:
  "handleSubmit (zona_fija 0) (supabase_tabla []) \<lparr>id_sal = 1, nombre = ''A'', capacidad = 30\<rparr>
      \<lparr>id_usr = 7\<rparr>
      \<lparr>proposito_form = ''Clase'', esRecurrente = True, tipoRecurrencia = ''weeks'',
       numSemanas = Some 4, fechaFinRecurrencia = None\<rparr> 36000000 36000000
     = \<lparr>salida = Inl (Error ''La fecha de fin debe ser posterior a la fecha de inicio''),
        llamadas = []\<rparr>"
proof -
  have le: "(36000000 :: int) \<le> 36000000" by simp
  from end_not_after_start_rejected
         [of 36000000 36000000 "zona_fija 0" "supabase_tabla []"
             "\<lparr>id_sal = 1, nombre = ''A'', capacidad = 30\<rparr>" "\<lparr>id_usr = 7\<rparr>"
             "\<lparr>proposito_form = ''Clase'', esRecurrente = True, tipoRecurrencia = ''weeks'',
               numSemanas = Some 4, fechaFinRecurrencia = None\<rparr>"] le
  show ?thesis by blast
qed

text \<open>A single booking, which is sent as validated, keeps its end after its start.\<close>

lemma reserva_simple_orden:
  assumes "\<not> esRecurrente form"
    and "Insert filas \<in> set (llamadas (handleSubmit z be sal usr form inicio fin))"
    and "fila \<in> set filas"
  shows "fecha_inicio fila < fecha_fin fila"
  using assms
  by (auto simp: handleSubmit_def crearReservaSimple_def Let_def split: if_splits option.splits)

subsection \<open>Stop date before the first occurrence\<close>

text \<open>
  In a zone with one change of offset, a date parsed from a local text is the instant
  that its own local reading denotes.
\<close>

lemma leida_un_cambio:
  "UTC_de_local (zona_un_cambio c a d) (LocalTime (zona_un_cambio c a d)
       (UTC_de_local (zona_un_cambio c a d) l)) = UTC_de_local (zona_un_cambio c a d) l"
  by (auto simp: UTC_de_local_def LocalTime_def zona_un_cambio_def max_def split: if_splits)

lemma indices_primero: "indices n = k # ks \<Longrightarrow> k = 0"
  by (cases n) (auto simp: upt_eq_Cons_conv)

lemma ocurrencias_limite_pasado:
  assumes "tipoRecurrencia form \<noteq> ''weeks''" "fechaFinRecurrencia form = Some D"
    "D < inicioBase" "UTC_de_local z (LocalTime z inicioBase) = inicioBase"
  shows "ocurrencias z form inicioBase = []"
proof -
  have p: "pasa_limite (calcular_fechaLimite form) (inicio_k z inicioBase 0)"
    using assms by (simp add: calcular_fechaLimite_def inicio_k_def)
  show ?thesis
  proof (cases "indices (calcular_numReservas form inicioBase)")
    case Nil
    then show ?thesis by (simp add: ocurrencias_def)
  next
    case (Cons k ks)
    then have "k = 0" by (rule indices_primero)
    with Cons p show ?thesis by (simp add: ocurrencias_def)
  qed
qed

text \<open>
  C10. A recurrence bounded by a stop date \<open>D\<close> that is earlier than the base start:
  no occurrence is generated and no probe is issued; the only call is an insert of the
  empty batch. The submission is not answered with a validation error or a conflict
  error; when the backend accepts the empty insert, the success message counts 0. The
  base start is a date that the form parsed from a local date and time, so reading its
  local time back gives the same instant: that is the last hypothesis, and it holds of
  every instant in a zone with a constant offset.
\<close>

theorem stop_before_start:
  assumes "tipoRecurrencia form \<noteq> ''weeks''" and "fechaFinRecurrencia form = Some D"
    and "D < inicioBase"
    and "UTC_de_local z (LocalTime z inicioBase) = inicioBase"
  shows "ocurrencias z form inicioBase = []
       \<and> llamadas (crearReservasRecurrentes z be sal usr form inicioBase finBase) = [Insert []]
       \<and> (insert_reservas be [] = None \<longrightarrow>
            salida (crearReservasRecurrentes z be sal usr form inicioBase finBase)
              = Inr (Reservas_creadas 0))
       \<and> (\<forall>m. salida (crearReservasRecurrentes z be sal usr form inicioBase finBase)
                 \<noteq> Inl (Error m))
       \<and> (\<forall>cs. salida (crearReservasRecurrentes z be sal usr form inicioBase finBase)
                 \<noteq> Inl (Error_conflictos cs))"
proof -
  note o = ocurrencias_limite_pasado [OF assms]
  then have "filter (en_conflicto z be sal inicioBase finBase) (ocurrencias z form inicioBase) = []"
    by simp
  note r = crear_sin_conflictos [OF this, of usr]
  show ?thesis
    by (simp add: r o split: option.split)
qed

theorem stop_before_start_witness:
  "llamadas (crearReservasRecurrentes (zona_un_cambio 1711846800000 3600000 7200000)
      (supabase_tabla [])
      \<lparr>id_sal = 1, nombre = ''A'', capacidad = 30\<rparr> \<lparr>id_usr = 7\<rparr>
      \<lparr>proposito_form = ''Clase'', esRecurrente = True, tipoRecurrencia = ''date'',
       numSemanas = Some 16, fechaFinRecurrencia = Some 1710028800000\<rparr>
      1710061200000 1710064800000) = [Insert []]
   \<and> salida (crearReservasRecurrentes (zona_un_cambio 1711846800000 3600000 7200000)
      (supabase_tabla [])
      \<lparr>id_sal = 1, nombre = ''A'', capacidad = 30\<rparr> \<lparr>id_usr = 7\<rparr>
      \<lparr>proposito_form = ''Clase'', esRecurrente = True, tipoRecurrencia = ''date'',
       numSemanas = Some 16, fechaFinRecurrencia = Some 1710028800000\<rparr>
      1710061200000 1710064800000)
     = Inr (Reservas_creadas 0)"
proof -
  let ?z = "zona_un_cambio 1711846800000 3600000 7200000"
  let ?form = "\<lparr>proposito_form = ''Clase'', esRecurrente = True, tipoRecurrencia = ''date'',
       numSemanas = Some 16, fechaFinRecurrencia = Some 1710028800000\<rparr>"
  have h1: "tipoRecurrencia ?form \<noteq> ''weeks''" by simp
  have h2: "fechaFinRecurrencia ?form = Some 1710028800000" by simp
  have h3: "(1710028800000 :: int) < 1710061200000" by simp
  have h4: "UTC_de_local ?z (LocalTime ?z 1710061200000) = 1710061200000"
    by (simp add: UTC_de_local_def LocalTime_def zona_un_cambio_def)
  have ins: "insert_reservas (supabase_tabla []) [] = None"
    by (simp add: supabase_tabla_def)
  from stop_before_start [OF h1 h2 h3 h4, of "supabase_tabla []"
                            "\<lparr>id_sal = 1, nombre = ''A'', capacidad = 30\<rparr>" "\<lparr>id_usr = 7\<rparr>"
                            1710064800000] ins
  show ?thesis by blast
qed

subsection \<open>Where the probe departs from the specification\<close>

text \<open>
  C3 says that a failed probe aborts the operation before any write. The code reads only
  \<^verbatim>\<open>data\<close> from the answer of a probe and never its \<^verbatim>\<open>error\<close>; a failed probe
  has \<^verbatim>\<open>data\<close> null, which goes down the branch of an occurrence without conflicts.
  Against a backend whose every probe fails, a request of two weeks issues both probes
  and then inserts both rows, and a request of four weeks its four probes and four rows,
  in any zone with a constant offset.
\<close>

theorem failed_probes_still_insert:
  "crearReservasRecurrentes (zona_fija tza)
     \<lparr>select_reservas = (\<lambda>fs. None), insert_reservas = (\<lambda>nuevas. None)\<rparr>
     \<lparr>id_sal = 1, nombre = ''A'', capacidad = 30\<rparr> \<lparr>id_usr = 7\<rparr>
     \<lparr>proposito_form = ''Clase'', esRecurrente = True, tipoRecurrencia = ''weeks'',
      numSemanas = Some 2, fechaFinRecurrencia = None\<rparr>
     36000000 39600000
   = \<lparr>salida = Inr (Reservas_creadas 2),
      llamadas =
        [Select [Eq Col_salon_id 1,
                 Or_f [And_f [Lte Col_fecha_inicio 39600000, Gte Col_fecha_fin 36000000]]],
         Select [Eq Col_salon_id 1,
                 Or_f [And_f [Lte Col_fecha_inicio 644400000, Gte Col_fecha_fin 640800000]]],
         Insert [\<lparr>salon_id = 1, user_id = 7, fecha_inicio = 36000000,
                   fecha_fin = 39600000, proposito = ''Clase (Semana 1)''\<rparr>,
                 \<lparr>salon_id = 1, user_id = 7, fecha_inicio = 640800000,
                   fecha_fin = 644400000, proposito = ''Clase (Semana 2)''\<rparr>]]\<rparr>
   \<and> crearReservasRecurrentes (zona_fija tza)
     \<lparr>select_reservas = (\<lambda>fs. None), insert_reservas = (\<lambda>nuevas. None)\<rparr>
     \<lparr>id_sal = 1, nombre = ''A'', capacidad = 30\<rparr> \<lparr>id_usr = 7\<rparr>
     \<lparr>proposito_form = ''Clase'', esRecurrente = True, tipoRecurrencia = ''weeks'',
      numSemanas = Some 4, fechaFinRecurrencia = None\<rparr>
     36000000 39600000
   = \<lparr>salida = Inr (Reservas_creadas 4),
      llamadas =
        [Select [Eq Col_salon_id 1,
                 Or_f [And_f [Lte Col_fecha_inicio 39600000, Gte Col_fecha_fin 36000000]]],
         Select [Eq Col_salon_id 1,
                 Or_f [And_f [Lte Col_fecha_inicio 644400000, Gte Col_fecha_fin 640800000]]],
         Select [Eq Col_salon_id 1,
                 Or_f [And_f [Lte Col_fecha_inicio 1249200000, Gte Col_fecha_fin 1245600000]]],
         Select [Eq Col_salon_id 1,
                 Or_f [And_f [Lte Col_fecha_inicio 1854000000, Gte Col_fecha_fin 1850400000]]],
         Insert [\<lparr>salon_id = 1, user_id = 7, fecha_inicio = 36000000,
                   fecha_fin = 39600000, proposito = ''Clase (Semana 1)''\<rparr>,
                 \<lparr>salon_id = 1, user_id = 7, fecha_inicio = 640800000,
                   fecha_fin = 644400000, proposito = ''Clase (Semana 2)''\<rparr>,
                 \<lparr>salon_id = 1, user_id = 7, fecha_inicio = 1245600000,
                   fecha_fin = 1249200000, proposito = ''Clase (Semana 3)''\<rparr>,
                 \<lparr>salon_id = 1, user_id = 7, fecha_inicio = 1850400000,
                   fecha_fin = 1854000000, proposito = ''Clase (Semana 4)''\<rparr>]]\<rparr>"
  by (intro conjI; subst crear_fija; code_simp)

text \<open>
  Against a working backend, the probe of an occurrence finds a row exactly when some
  committed reservation of the room has \<open>start \<le> end of the occurrence\<close> and
  \<open>end \<ge> start of the occurrence\<close>, both inclusive; it succeeds with no row exactly
  when no committed reservation of the room overlaps or touches the occurrence.
\<close>

lemma sonda_intervalo_cerrado:
  "en_conflicto z (supabase_tabla filas) sal inicioBase finBase k \<longleftrightarrow>
     (\<exists>r \<in> set filas. salon_id r = id_sal sal
        \<and> fecha_inicio r \<le> inicio_k z finBase k \<and> fecha_fin r \<ge> inicio_k z inicioBase k)"
  by (auto simp: en_conflicto_def supabase_tabla_def sonda_k_def consulta_conflicto_def
                 filter_empty_conv)

lemma sonda_vacia:
  "select_reservas (supabase_tabla filas) (sonda_k z sal inicioBase finBase k) = Some [] \<longleftrightarrow>
     \<not> (\<exists>r \<in> set filas. salon_id r = id_sal sal
            \<and> fecha_inicio r \<le> inicio_k z finBase k \<and> fecha_fin r \<ge> inicio_k z inicioBase k)"
  by (auto simp: supabase_tabla_def sonda_k_def consulta_conflicto_def filter_empty_conv)

text \<open>
  C4 says that the probe flags an existing reservation under the half-open test of the
  availability query. With a committed reservation 09:00-10:00 and an occurrence
  10:00-11:00 on the same room, the probe (\<^verbatim>\<open>lte\<close>, \<^verbatim>\<open>gte\<close>) returns that
  reservation, although the half-open test fails and the availability query reports the
  room available for the same window; the recurrence is refused with a conflict in week 1,
  for a series of one week and for a series of four.
\<close>

theorem probe_flags_adjacent_reservation:
  "select_reservas
      (supabase_tabla [\<lparr>salon_id = 1, user_id = 9, fecha_inicio = 32400000,
                         fecha_fin = 36000000, proposito = ''Otra'', id_res = 3\<rparr>])
      (consulta_conflicto \<lparr>id_sal = 1, nombre = ''A'', capacidad = 30\<rparr> 36000000 39600000)
     = Some [\<lparr>salon_id = 1, user_id = 9, fecha_inicio = 32400000,
               fecha_fin = 36000000, proposito = ''Otra'', id_res = 3\<rparr>]
   \<and> \<not> overlap 36000000 39600000 32400000 36000000
   \<and> handleBuscar [\<lparr>id_sal = 1, nombre = ''A'', capacidad = 30\<rparr>]
        [\<lparr>salon_id = 1, user_id = 9, fecha_inicio = 32400000,
           fecha_fin = 36000000, proposito = ''Otra'', id_res = 3\<rparr>]
        Sin_minimo 36000000 39600000
      = [\<lparr>salon = \<lparr>id_sal = 1, nombre = ''A'', capacidad = 30\<rparr>, disponible = True,
          conflicto = None\<rparr>]
   \<and> crearReservasRecurrentes (zona_fija tza)
        (supabase_tabla [\<lparr>salon_id = 1, user_id = 9, fecha_inicio = 32400000,
                           fecha_fin = 36000000, proposito = ''Otra'', id_res = 3\<rparr>])
        \<lparr>id_sal = 1, nombre = ''A'', capacidad = 30\<rparr> \<lparr>id_usr = 7\<rparr>
        \<lparr>proposito_form = ''Clase'', esRecurrente = True, tipoRecurrencia = ''weeks'',
         numSemanas = Some 1, fechaFinRecurrencia = None\<rparr>
        36000000 39600000
      = \<lparr>salida = Inl (Error_conflictos [\<lparr>semana = 1, fecha = 36000000\<rparr>]),
         llamadas =
           [Select [Eq Col_salon_id 1,
                    Or_f [And_f [Lte Col_fecha_inicio 39600000,
                                 Gte Col_fecha_fin 36000000]]]]\<rparr>
   \<and> crearReservasRecurrentes (zona_fija tza)
        (supabase_tabla [\<lparr>salon_id = 1, user_id = 9, fecha_inicio = 32400000,
                           fecha_fin = 36000000, proposito = ''Otra'', id_res = 3\<rparr>])
        \<lparr>id_sal = 1, nombre = ''A'', capacidad = 30\<rparr> \<lparr>id_usr = 7\<rparr>
        \<lparr>proposito_form = ''Clase'', esRecurrente = True, tipoRecurrencia = ''weeks'',
         numSemanas = Some 4, fechaFinRecurrencia = None\<rparr>
        36000000 39600000
      = \<lparr>salida = Inl (Error_conflictos [\<lparr>semana = 1, fecha = 36000000\<rparr>]),
         llamadas =
           [Select [Eq Col_salon_id 1,
                    Or_f [And_f [Lte Col_fecha_inicio 39600000, Gte Col_fecha_fin 36000000]]],
            Select [Eq Col_salon_id 1,
                    Or_f [And_f [Lte Col_fecha_inicio 644400000, Gte Col_fecha_fin 640800000]]],
            Select [Eq Col_salon_id 1,
                    Or_f [And_f [Lte Col_fecha_inicio 1249200000,
                                 Gte Col_fecha_fin 1245600000]]],
            Select [Eq Col_salon_id 1,
                    Or_f [And_f [Lte Col_fecha_inicio 1854000000,
                                 Gte Col_fecha_fin 1850400000]]]]\<rparr>"
proof (intro conjI)
  show "crearReservasRecurrentes (zona_fija tza)
        (supabase_tabla [\<lparr>salon_id = 1, user_id = 9, fecha_inicio = 32400000,
                           fecha_fin = 36000000, proposito = ''Otra'', id_res = 3\<rparr>])
        \<lparr>id_sal = 1, nombre = ''A'', capacidad = 30\<rparr> \<lparr>id_usr = 7\<rparr>
        \<lparr>proposito_form = ''Clase'', esRecurrente = True, tipoRecurrencia = ''weeks'',
         numSemanas = Some 1, fechaFinRecurrencia = None\<rparr>
        36000000 39600000
      = \<lparr>salida = Inl (Error_conflictos [\<lparr>semana = 1, fecha = 36000000\<rparr>]),
         llamadas =
           [Select [Eq Col_salon_id 1,
                    Or_f [And_f [Lte Col_fecha_inicio 39600000,
                                 Gte Col_fecha_fin 36000000]]]]\<rparr>"
    by (subst crear_fija) code_simp
  show "crearReservasRecurrentes (zona_fija tza)
        (supabase_tabla [\<lparr>salon_id = 1, user_id = 9, fecha_inicio = 32400000,
                           fecha_fin = 36000000, proposito = ''Otra'', id_res = 3\<rparr>])
        \<lparr>id_sal = 1, nombre = ''A'', capacidad = 30\<rparr> \<lparr>id_usr = 7\<rparr>
        \<lparr>proposito_form = ''Clase'', esRecurrente = True, tipoRecurrencia = ''weeks'',
         numSemanas = Some 4, fechaFinRecurrencia = None\<rparr>
        36000000 39600000
      = \<lparr>salida = Inl (Error_conflictos [\<lparr>semana = 1, fecha = 36000000\<rparr>]),
         llamadas =
           [Select [Eq Col_salon_id 1,
                    Or_f [And_f [Lte Col_fecha_inicio 39600000, Gte Col_fecha_fin 36000000]]],
            Select [Eq Col_salon_id 1,
                    Or_f [And_f [Lte Col_fecha_inicio 644400000, Gte Col_fecha_fin 640800000]]],
            Select [Eq Col_salon_id 1,
                    Or_f [And_f [Lte Col_fecha_inicio 1249200000,
                                 Gte Col_fecha_fin 1245600000]]],
            Select [Eq Col_salon_id 1,
                    Or_f [And_f [Lte Col_fecha_inicio 1854000000,
                                 Gte Col_fecha_fin 1850400000]]]]\<rparr>"
    by (subst crear_fija) code_simp
qed code_simp+

end
